theory Spec2Isabelle
  imports Complex_Main "HOL-Library.Word"
begin

section \<open>Data model of the AUP importer (ImportAUP.cpp)\<close>

text \<open>
  The importer is one C++ class, \<open>AUPImportFileHandle\<close>. Its members are the fields of
  the record \<open>handle\<close> below; every member function becomes a function that takes the
  handle and returns the new one. Objects the importer reaches through pointers (tracks
  and clips) live in \<open>heap\<close>, a list indexed by address; a pointer is \<open>nat option\<close>
  and \<open>None\<close> is \<open>nullptr\<close>. A call the C++ standard leaves undefined (\<open>back()\<close> of an
  empty vector, a member call through a null or wrongly cast pointer, a read past a
  buffer) makes the function return \<open>None\<close>.
\<close>

type_synonym attrs = "(string \<times> string) list"
  \<comment> \<open>the attribute array of one tag: name, value, name, value, ... as pairs\<close>

datatype ProgressResult = Cancelled | Success | Failed | Stopped

datatype sampleFormat = int16Sample | int24Sample | floatSample

datatype sample = S16 "16 word" | S24 "32 word" | F32 "32 word"
  \<comment> \<open>one element of a \<open>SampleBuffer\<close>: a short, an int or the bits of a float\<close>

datatype run = Silence int | Block sampleFormat "sample list"
  \<comment> \<open>a sample run of a clip or track: inserted silence, or an appended buffer\<close>

datatype kind = LabelTrack | NoteTrack | TimeTrack | WaveTrack | WaveClip

record entity =
  e_kind :: kind
  e_owner :: "nat option"
  e_runs :: "run list"

datatype handler = Obj nat | EnvelopeOf nat | PointOf nat
  \<comment> \<open>an \<open>XMLTagHandler *\<close>: a track or clip, the envelope of one, a control point of it\<close>

record node =
  n_parent :: string
  n_tag :: string
  n_handler :: "handler option"

record fileinfo =
  fi_track :: "nat option"
  fi_clip :: "nat option"
  fi_path :: string
  fi_len :: int
  fi_origin :: int
  fi_channel :: int

datatype message = LogError string | LogWarning string | MessageBox string

record project_attrs =
  havevpos :: bool
  vpos :: int
  haveh :: bool
  h :: real
  havezoom :: bool
  zoom :: real
  havesel0 :: bool
  sel0 :: real
  havesel1 :: bool
  sel1 :: real
  haveselLow :: bool
  selLow :: real
  haveselHigh :: bool
  selHigh :: real
  haverate :: bool
  rate :: real
  havesnapto :: bool
  snapto :: bool
  haveselectionformat :: bool
  selectionformat :: string
  haveaudiotimeformat :: bool
  audiotimeformat :: string
  havefrequencyformat :: bool
  frequencyformat :: string
  havebandwidthformat :: bool
  bandwidthformat :: string

record wxFileName =
  fn_dirs :: "string list"
  fn_name :: string

record handle =
  heap :: "entity list"
  mFilename :: wxFileName
  mTags :: "(string \<times> string) list"
  mProjectAttrs :: project_attrs
  mFiles :: "fileinfo list"
  mTotalSamples :: int
  mFormat :: sampleFormat
  mHandlers :: "node list"
  mParentTag :: string
  mCurrentTag :: string
  mProjDir :: "string list"
  mFileMap :: "(string \<times> string) list"
  mTracks :: "nat list"
  mWaveTrack :: "nat option"
  mClip :: "nat option"
  mUpdateResult :: ProgressResult
  mErrorMsg :: string
  msgs :: "message list"
  delivered :: "(handler \<times> string \<times> attrs option) list"

text \<open>
  \<open>mTags\<close> is the list of \<open>Tags::SetTag\<close> calls made on the caller's metadata object,
  \<open>msgs\<close> the log lines and message boxes shown, and \<open>delivered\<close> the tag events passed on
  to a track, clip, envelope or control point (\<open>Some attrs\<close> for \<open>HandleXMLTag\<close>, \<open>None\<close>
  for \<open>HandleXMLEndTag\<close>). \<open>mFileMap\<close> is searched with \<open>map_of\<close>, so a pair put in front
  replaces an older one with the same key, as \<open>mFileMap[k] = v\<close> does.
\<close>

subsection \<open>The host project\<close>

datatype setting =
    SetRate real
  | AS_SetSnapTo bool
  | AS_SetSelectionFormat string
  | TT_SetAudioTimeFormat string
  | SSBL_SetFrequencySelectionFormatName string
  | SSBL_SetBandwidthSelectionFormatName string
  | assign_vpos int
  | assign_h real
  | SetZoom real
  | setT0 real
  | setT1 real
  | setF0 real
  | setF1 real

record project =
  p_dirty :: bool
  p_tracks :: "nat list"
  p_settings :: "setting list"

text \<open>
  \<open>p_dirty\<close> is \<open>ProjectHistory::GetDirty()\<close>, \<open>p_tracks\<close> the project's \<open>TrackList\<close>
  (addresses into the heap), and \<open>p_settings\<close> the view-state setters called on the
  project so far, in the order of the calls.
\<close>

subsection \<open>What the importer calls and this file does not define\<close>

record sndfile =
  sf_open_ok :: bool
  channels :: int
  subtype_is_integer :: bool
  subtype_more_than_16_bits :: bool
  seek_ok :: "int \<Rightarrow> bool"
  nframes :: nat
  as_short :: "nat \<Rightarrow> 16 word"
  as_int :: "nat \<Rightarrow> 32 word"
  as_float :: "nat \<Rightarrow> 32 word"

text \<open>
  A file that \<open>wxFile::Open\<close> can open: whether \<open>sf_open_fd\<close> accepts it, the \<open>SF_INFO\<close>
  it fills in, whether \<open>sf_seek\<close> to a frame succeeds, how many frames a read can
  deliver counted from the start of the file, and the item (frame times channels plus
  channel) the three readers deliver at each position.
\<close>

record env =
  USE_MIDI :: bool
  EXPERIMENTAL_SPECTRAL_EDITING :: bool
  IsGoodString :: "string \<Rightarrow> bool"
  IsGoodInt :: "string \<Rightarrow> bool"
  IsGoodInt64 :: "string \<Rightarrow> bool"
  ToLong :: "string \<Rightarrow> int option"
  ToLongLong :: "string \<Rightarrow> int option"
  CompatibleToDouble :: "string \<Rightarrow> real option"
  IsValidSampleFormat :: "int \<Rightarrow> sampleFormat option"
  IsGoodFileString :: "string \<Rightarrow> bool"
  IsGoodPathName :: "string \<Rightarrow> bool"
  IsGoodFileName :: "string \<Rightarrow> string list \<Rightarrow> bool"
  IsGoodPathString :: "string \<Rightarrow> bool"
  DirExists :: "string list \<Rightarrow> bool"
  GetAllFiles :: "string list \<Rightarrow> string list"
  wxFileNameFromPath :: "string \<Rightarrow> string"
  GetPath :: "string list \<Rightarrow> string"
  MakeUpper :: "string \<Rightarrow> string"
  entity_HandleXMLTag :: "handler \<Rightarrow> string \<Rightarrow> attrs \<Rightarrow> bool"
  Update :: "nat \<Rightarrow> int \<Rightarrow> int \<Rightarrow> ProgressResult"
  wxFile_Open :: "string \<Rightarrow> sndfile option"
  uninitialized :: "nat \<Rightarrow> sample"
  CopySamples :: "sampleFormat \<Rightarrow> 32 word list \<Rightarrow> sample list"

text \<open>
  The two build macros, the \<open>XMLValueChecker\<close> predicates, the wxWidgets string and
  file-system calls, \<open>HandleXMLTag\<close> of the track, clip, envelope and point classes,
  the progress dialog (\<open>Update\<close> gets the number of the call first), the files that can
  be opened, the content of freshly allocated buffer memory, and \<open>CopySamples\<close> from
  floats to the given format. \<open>ToLong\<close>, \<open>ToLongLong\<close> and \<open>CompatibleToDouble\<close> return
  the number they store when they return true; \<open>IsValidSampleFormat\<close> returns the
  enumerator the accepted number is cast to.
\<close>

section \<open>Errors and warnings\<close>

text \<open>
  \<open>wxLogError\<close> and \<open>wxLogWarning\<close> add a line to \<open>msgs\<close>. The texts of the messages are
  kept without their quotation marks and format arguments; no function reads them
  except to test \<open>mErrorMsg\<close> for emptiness.
\<close>

definition SetError :: "string \<Rightarrow> handle \<Rightarrow> bool \<times> handle" where
  "SetError msg s =
     (False, s\<lparr>mUpdateResult := Failed,
               mErrorMsg := (if mErrorMsg s = [] then msg else mErrorMsg s),
               msgs := msgs s @ [LogError msg]\<rparr>)"

definition SetWarning :: "string \<Rightarrow> handle \<Rightarrow> bool \<times> handle" where
  "SetWarning msg s =
     (False, s\<lparr>mErrorMsg := (if mErrorMsg s = [] then msg else mErrorMsg s),
               msgs := msgs s @ [LogWarning msg]\<rparr>)"

section \<open>The tag handlers\<close>

text \<open>
  Each \<open>while (*mAttrs)\<close> loop is a recursion over the attribute list. A loop function
  returns \<open>False\<close> first when the C++ left the function with \<open>return false\<close> (every
  early return of these loops returns false) and \<open>True\<close> when the loop ran to the end
  of the list. The test \<open>if (!value) break\<close> never fires on a list of pairs.
\<close>

definition parse_long :: "env \<Rightarrow> string \<Rightarrow> int option" where
  \<comment> \<open>\<open>IsGoodInt(strValue) && strValue.ToLong(&lValue)\<close>\<close>
  "parse_long e v = (if IsGoodInt e v then ToLong e v else None)"

definition parse_longlong :: "env \<Rightarrow> string \<Rightarrow> int option" where
  \<comment> \<open>\<open>IsGoodInt64(strValue) && strValue.ToLongLong(&nValue)\<close>\<close>
  "parse_longlong e v = (if IsGoodInt64 e v then ToLongLong e v else None)"

definition to_int :: "int \<Rightarrow> int" where
  \<comment> \<open>the conversion of a \<open>long\<close> to \<open>int\<close>, 32 bits wide\<close>
  "to_int l = sint (word_of_int l :: 32 word)"

definition find_data_dir :: "env \<Rightarrow> handle \<Rightarrow> string \<Rightarrow> string \<times> string list" where
  \<comment> \<open>the \<open>projname\<close> branch up to "No luck": the name that was found (empty when none)
      and \<open>mProjDir\<close> as the two \<open>AppendDir\<close> calls leave it\<close>
  "find_data_dir e s v =
     (let altname = fn_name (mFilename s) @ ''-data'';
          d0 = fn_dirs (mFilename s);
          d1 = (if v \<noteq> [] then d0 @ [v] else d0);
          projName1 = (if v \<noteq> [] \<and> DirExists e d1 then v else []);
          d2 = (if projName1 = [] then d1 @ [altname] else d1);
          projName2 = (if projName1 = [] then (if DirExists e d2 then altname else [])
                       else projName1)
      in (projName2, d2))"

definition hash_files :: "env \<Rightarrow> string list \<Rightarrow> (string \<times> string) list \<Rightarrow> (string \<times> string) list" where
  \<comment> \<open>\<open>mFileMap[wxFileNameFromPath(fn)] = fn\<close> for every file of the directory\<close>
  "hash_files e files m = fold (\<lambda>fn m'. (wxFileNameFromPath e fn, fn) # m') files m"

definition set_double ::
  "env \<Rightarrow> string \<Rightarrow> string \<Rightarrow> (real \<Rightarrow> project_attrs \<Rightarrow> project_attrs) \<Rightarrow> nat \<Rightarrow> handle
     \<Rightarrow> bool \<times> nat \<times> handle" where
  \<comment> \<open>the shape shared by \<open>h\<close>, \<open>zoom\<close>, \<open>sel0\<close>, \<open>sel1\<close>, \<open>selLow\<close>, \<open>selHigh\<close> and \<open>rate\<close>\<close>
  "set_double e v msg upd n s =
     (case CompatibleToDouble e v of
        None \<Rightarrow> (False, n, snd (SetError msg s))
      | Some d \<Rightarrow>
          if d < 0 then (False, n, snd (SetError msg s))
          else (True, n, s\<lparr>mProjectAttrs := upd d (mProjectAttrs s)\<rparr>))"

definition HandleProject_attr ::
  "env \<Rightarrow> string \<Rightarrow> string \<Rightarrow> nat \<Rightarrow> handle \<Rightarrow> bool \<times> nat \<times> handle" where
  "HandleProject_attr e attr v n s =
     (if \<not> IsGoodString e v
        then (False, n, snd (SetError (''Invalid project '' @ attr @ '' attribute.'') s))
      else if attr = ''vpos'' then
        (case parse_long e v of
           None \<Rightarrow> (False, n, snd (SetError ''Invalid project vpos attribute.'' s))
         | Some l \<Rightarrow>
             if l < 0 then (False, n, snd (SetError ''Invalid project vpos attribute.'' s))
             else (True, n, s\<lparr>mProjectAttrs :=
                     (mProjectAttrs s)\<lparr>havevpos := True, vpos := to_int l\<rparr>\<rparr>))
      else if attr = ''h'' then
        set_double e v ''Invalid project h attribute.''
          (\<lambda>d a. a\<lparr>haveh := True, h := d\<rparr>) n s
      else if attr = ''zoom'' then
        set_double e v ''Invalid project zoom attribute.''
          (\<lambda>d a. a\<lparr>havezoom := True, zoom := d\<rparr>) n s
      else if attr = ''sel0'' then
        set_double e v ''Invalid project sel0 attribute.''
          (\<lambda>d a. a\<lparr>havesel0 := True, sel0 := d\<rparr>) n s
      else if attr = ''sel1'' then
        set_double e v ''Invalid project sel1 attribute.''
          (\<lambda>d a. a\<lparr>havesel1 := True, sel1 := d\<rparr>) n s
      else if EXPERIMENTAL_SPECTRAL_EDITING e \<and> attr = ''selLow'' then
        set_double e v ''Invalid project selLow attribute.''
          (\<lambda>d a. a\<lparr>haveselLow := True, selLow := d\<rparr>) n s
      else if EXPERIMENTAL_SPECTRAL_EDITING e \<and> attr = ''selHigh'' then
        set_double e v ''Invalid project selHigh attribute.''
          (\<lambda>d a. a\<lparr>haveselHigh := True, selHigh := d\<rparr>) n s
      else if attr = ''version'' then (True, Suc n, s)
      else if attr = ''audacityversion'' then (True, Suc n, s)
      else if attr = ''projname'' then
        (let (projName, dir) = find_data_dir e s v;
             s1 = s\<lparr>mProjDir := dir\<rparr>
         in if projName = []
            then (False, Suc n, s1\<lparr>msgs := msgs s1 @
                    [MessageBox (''Could not find the project data folder: '' @ v)]\<rparr>)
            else (True, Suc n, s1\<lparr>mFileMap := hash_files e (GetAllFiles e dir) (mFileMap s1)\<rparr>))
      else if attr = ''rate'' then
        set_double e v ''Invalid project selLow attribute.''
          (\<lambda>d a. a\<lparr>haverate := True, rate := d\<rparr>) n s
      else if attr = ''snapto'' then
        (True, n, s\<lparr>mProjectAttrs := (mProjectAttrs s)\<lparr>havesnapto := True, snapto := (v = ''on'')\<rparr>\<rparr>)
      else if attr = ''selectionformat'' then
        (True, n, s\<lparr>mProjectAttrs :=
           (mProjectAttrs s)\<lparr>haveselectionformat := True, selectionformat := v\<rparr>\<rparr>)
      else if attr = ''audiotimeformat'' then
        (True, n, s\<lparr>mProjectAttrs :=
           (mProjectAttrs s)\<lparr>haveaudiotimeformat := True, audiotimeformat := v\<rparr>\<rparr>)
      else if attr = ''frequencyformat'' then
        (True, n, s\<lparr>mProjectAttrs :=
           (mProjectAttrs s)\<lparr>havefrequencyformat := True, frequencyformat := v\<rparr>\<rparr>)
      else if attr = ''bandwidthformat'' then
        (True, n, s\<lparr>mProjectAttrs :=
           (mProjectAttrs s)\<lparr>havebandwidthformat := True, bandwidthformat := v\<rparr>\<rparr>)
      else (True, n, s))"

fun HandleProject_loop :: "env \<Rightarrow> attrs \<Rightarrow> nat \<Rightarrow> handle \<Rightarrow> bool \<times> nat \<times> handle" where
  "HandleProject_loop e [] requiredTags s = (True, requiredTags, s)"
| "HandleProject_loop e ((attr, v) # rest) requiredTags s =
     (case HandleProject_attr e attr v requiredTags s of
        (False, n, s') \<Rightarrow> (False, n, s')
      | (True, n, s') \<Rightarrow> HandleProject_loop e rest n s')"

definition HandleProject :: "env \<Rightarrow> attrs \<Rightarrow> handle \<Rightarrow> bool \<times> handler option \<times> handle" where
  "HandleProject e as s =
     (case HandleProject_loop e as 0 s of
        (False, n, s') \<Rightarrow> (False, None, s')
      | (True, requiredTags, s') \<Rightarrow>
          if requiredTags < 3 then (False, None, s') else (True, None, s'))"

subsection \<open>Tracks, tags and labels\<close>

definition alloc :: "kind \<Rightarrow> nat option \<Rightarrow> handle \<Rightarrow> nat \<times> handle" where
  \<comment> \<open>a new track or clip, at the next free address\<close>
  "alloc k ow s =
     (length (heap s), s\<lparr>heap := heap s @ [\<lparr>e_kind = k, e_owner = ow, e_runs = []\<rparr>]\<rparr>)"

definition is_kind :: "handle \<Rightarrow> kind \<Rightarrow> nat \<Rightarrow> bool" where
  "is_kind s k r = (r < length (heap s) \<and> e_kind (heap s ! r) = k)"

definition new_track :: "kind \<Rightarrow> handle \<Rightarrow> nat \<times> handle" where
  \<comment> \<open>\<open>mTracks.push_back(...); handler = mTracks.back().get()\<close>\<close>
  "new_track k s = (let (r, s') = alloc k None s in (r, s'\<lparr>mTracks := mTracks s' @ [r]\<rparr>))"

definition HandleLabelTrack :: "handle \<Rightarrow> bool \<times> handler option \<times> handle" where
  "HandleLabelTrack s = (let (r, s') = new_track LabelTrack s in (True, Some (Obj r), s'))"

definition HandleNoteTrack :: "env \<Rightarrow> handle \<Rightarrow> bool \<times> handler option \<times> handle" where
  "HandleNoteTrack e s =
     (if USE_MIDI e then (let (r, s') = new_track NoteTrack s in (True, Some (Obj r), s'))
      else (False, None,
            s\<lparr>msgs := msgs s @ [MessageBox ''MIDI tracks found in project file, bypassing track.'']\<rparr>))"

definition has_time_track :: "project \<Rightarrow> handle \<Rightarrow> bool" where
  \<comment> \<open>\<open>*tracks.Any<TimeTrack>().begin()\<close> on the track list of the project\<close>
  "has_time_track p s = list_ex (is_kind s TimeTrack) (p_tracks p)"

definition HandleTimeTrack :: "project \<Rightarrow> handle \<Rightarrow> bool \<times> handler option \<times> handle" where
  "HandleTimeTrack p s =
     (if has_time_track p s
      then (True, None,
            s\<lparr>msgs := msgs s @
               [MessageBox ''The active project already has a time track, bypassing imported time track.'']\<rparr>)
      else (let (r, s') = new_track TimeTrack s in (True, Some (Obj r), s')))"

definition HandleWaveTrack :: "handle \<Rightarrow> bool \<times> handler option \<times> handle" where
  "HandleWaveTrack s =
     (let (r, s') = new_track WaveTrack s
      in (True, Some (Obj r), s'\<lparr>mWaveTrack := Some r, mClip := None\<rparr>))"

fun HandleTags_loop :: "env \<Rightarrow> attrs \<Rightarrow> handle \<Rightarrow> bool \<times> handle" where
  "HandleTags_loop e [] s = (True, s)"
| "HandleTags_loop e ((attr, v) # rest) s =
     (if v = [] then HandleTags_loop e rest s
      else if \<not> (IsGoodString e attr \<and> IsGoodString e v) then (False, s)
      else if attr = ''id3v2'' then HandleTags_loop e rest s
      else HandleTags_loop e rest
             (s\<lparr>mTags := mTags s @
                [(if attr = ''track'' then ''TRACKNUMBER'' else MakeUpper e attr, v)]\<rparr>))"

definition HandleTags :: "env \<Rightarrow> attrs \<Rightarrow> handle \<Rightarrow> bool \<times> handler option \<times> handle" where
  "HandleTags e as s = (let (ok, s') = HandleTags_loop e as s in (ok, None, s'))"

fun HandleTag_loop :: "env \<Rightarrow> attrs \<Rightarrow> string \<times> string \<Rightarrow> string \<times> string" where
  \<comment> \<open>the pair is \<open>(n, v)\<close>; both tests of the loop leave it with \<open>break\<close>\<close>
  "HandleTag_loop e [] nv = nv"
| "HandleTag_loop e ((attr, v') # rest) (n, v) =
     (if attr = [] then (n, v)
      else if \<not> (IsGoodString e attr \<and> IsGoodString e v') then (n, v)
      else if attr = ''name'' then HandleTag_loop e rest (v', v)
      else if attr = ''value'' then HandleTag_loop e rest (n, v')
      else HandleTag_loop e rest (n, v))"

definition HandleTag :: "env \<Rightarrow> attrs \<Rightarrow> handle \<Rightarrow> bool \<times> handler option \<times> handle" where
  "HandleTag e as s =
     (if mParentTag s \<noteq> ''tags'' then (False, None, s)
      else (let (n, v) = HandleTag_loop e as ([], [])
            in if n = ''id3v2'' then (True, None, s)
               else (True, None, s\<lparr>mTags := mTags s @ [(n, v)]\<rparr>)))"

definition HandleLabel :: "handle \<Rightarrow> (bool \<times> handler option \<times> handle) option" where
  "HandleLabel s =
     (if mParentTag s \<noteq> ''labeltrack'' then Some (False, None, s)
      else if mHandlers s = [] then None
      else Some (True, n_handler (last (mHandlers s)), s))"

subsection \<open>Clips, envelopes and control points\<close>

text \<open>
  Modelled from the spec: \<open>WaveTrack::CreateClip\<close>, \<open>WaveClip::HandleXMLChild\<close> and
  \<open>WaveTrack::RightmostOrNewClip\<close> are not in this file. By the spec a wave-clip under
  a Wave Track "creates a new clip on that track" and a wave-clip under a wave-clip
  creates a nested cut-line clip. For \<open>RightmostOrNewClip\<close> the comment at the call says
  "we get or create the only clip in the track": the last clip created on the track,
  or a new one. \<open>TimeTrack::GetEnvelope\<close> and \<open>WaveClip::GetEnvelope\<close> return the
  envelope the object owns, and \<open>Envelope::HandleXMLChild\<close> a control point of the
  envelope.
\<close>

definition clips_of :: "handle \<Rightarrow> nat \<Rightarrow> nat list" where
  "clips_of s t =
     filter (\<lambda>r. e_kind (heap s ! r) = WaveClip \<and> e_owner (heap s ! r) = Some t)
       [0 ..< length (heap s)]"

definition RightmostOrNewClip :: "nat \<Rightarrow> handle \<Rightarrow> nat \<times> handle" where
  "RightmostOrNewClip t s =
     (if clips_of s t = [] then alloc WaveClip (Some t) s else (last (clips_of s t), s))"

definition HandleWaveClip :: "handle \<Rightarrow> (bool \<times> handler option \<times> handle) option" where
  "HandleWaveClip s =
     (if mHandlers s = [] then None
      else if mParentTag s = ''wavetrack'' then
        (case n_handler (last (mHandlers s)) of
           Some (Obj t) \<Rightarrow>
             if is_kind s WaveTrack t
             then (let (c, s') = alloc WaveClip (Some t) s
                   in Some (True, Some (Obj c), s'\<lparr>mClip := Some c\<rparr>))
             else None
         | _ \<Rightarrow> None)
      else if mParentTag s = ''waveclip'' then
        (case n_handler (last (mHandlers s)) of
           Some (Obj c0) \<Rightarrow>
             if is_kind s WaveClip c0
             then (let (c, s') = alloc WaveClip (Some c0) s
                   in Some (True, Some (Obj c), s'\<lparr>mClip := Some c\<rparr>))
             else None
         | _ \<Rightarrow> None)
      else Some (True, None, s\<lparr>mClip := None\<rparr>))"

definition HandleEnvelope :: "handle \<Rightarrow> (bool \<times> handler option \<times> handle) option" where
  "HandleEnvelope s =
     (if mHandlers s = [] then None
      else if mParentTag s = ''timetrack'' then
        (case n_handler (last (mHandlers s)) of
           None \<Rightarrow> Some (True, None, s)
         | Some (Obj t) \<Rightarrow>
             if is_kind s TimeTrack t then Some (True, Some (EnvelopeOf t), s) else None
         | Some _ \<Rightarrow> None)
      else if mParentTag s = ''wavetrack'' then
        (case mWaveTrack s of
           None \<Rightarrow> None
         | Some t \<Rightarrow>
             if is_kind s WaveTrack t
             then (let (c, s') = RightmostOrNewClip t s in Some (True, Some (EnvelopeOf c), s'))
             else None)
      else if mParentTag s = ''waveclip'' then
        (case n_handler (last (mHandlers s)) of
           Some (Obj c) \<Rightarrow>
             if is_kind s WaveClip c then Some (True, Some (EnvelopeOf c), s) else None
         | _ \<Rightarrow> None)
      else Some (True, None, s))"

definition HandleControlPoint :: "handle \<Rightarrow> (bool \<times> handler option \<times> handle) option" where
  "HandleControlPoint s =
     (if mHandlers s = [] then None
      else if mParentTag s = ''envelope'' then
        (case n_handler (last (mHandlers s)) of
           None \<Rightarrow> Some (True, None, s)
         | Some (EnvelopeOf r) \<Rightarrow> Some (True, Some (PointOf r), s)
         | Some _ \<Rightarrow> None)
      else Some (True, None, s))"

subsection \<open>Sequences and block files\<close>

definition HandleSequence_attr :: "env \<Rightarrow> string \<Rightarrow> string \<Rightarrow> handle \<Rightarrow> bool \<times> handle" where
  "HandleSequence_attr e attr v s =
     (if attr = ''maxsamples'' then
        (case parse_longlong e v of
           None \<Rightarrow> SetError ''Invalid sequence maxsamples attribute.'' s
         | Some nValue \<Rightarrow>
             if nValue < 0 then SetError ''Invalid sequence maxsamples attribute.'' s
             else if nValue < 1024 \<or> nValue > 64 * 1024 * 1024
               then SetError ''Invalid sequence maxsamples attribute.'' s
             else (True, s))
      else if attr = ''sampleformat'' then
        (case parse_long e v of
           None \<Rightarrow> SetError ''Invalid sequence sampleformat attribute.'' s
         | Some fValue \<Rightarrow>
             if fValue < 0 then SetError ''Invalid sequence sampleformat attribute.'' s
             else (case IsValidSampleFormat e fValue of
                     None \<Rightarrow> SetError ''Invalid sequence sampleformat attribute.'' s
                   | Some f \<Rightarrow> (True, s\<lparr>mFormat := f\<rparr>)))
      else if attr = ''numsamples'' then
        (case parse_longlong e v of
           None \<Rightarrow> SetError ''Invalid sequence numsamples attribute.'' s
         | Some nValue \<Rightarrow>
             if nValue < 0 then SetError ''Invalid sequence numsamples attribute.'' s
             else (True, s))
      else (True, s))"

fun HandleSequence_loop :: "env \<Rightarrow> attrs \<Rightarrow> handle \<Rightarrow> bool \<times> handle" where
  "HandleSequence_loop e [] s = (True, s)"
| "HandleSequence_loop e ((attr, v) # rest) s =
     (case HandleSequence_attr e attr v s of
        (False, s') \<Rightarrow> (False, s')
      | (True, s') \<Rightarrow> HandleSequence_loop e rest s')"

definition HandleSequence :: "env \<Rightarrow> attrs \<Rightarrow> handle \<Rightarrow> (bool \<times> handler option \<times> handle) option" where
  \<comment> \<open>the function starts with \<open>node = mHandlers.back()\<close>\<close>
  "HandleSequence e as s =
     (if mHandlers s = [] then None
      else (let (ok, s') = HandleSequence_loop e as s in Some (ok, None, s')))"

fun HandleWaveBlock_loop :: "env \<Rightarrow> attrs \<Rightarrow> handle \<Rightarrow> bool \<times> handle" where
  "HandleWaveBlock_loop e [] s = (True, s)"
| "HandleWaveBlock_loop e ((attr, v) # rest) s =
     (if attr = ''start'' then
        (case parse_longlong e v of
           None \<Rightarrow> SetError ''Unable to parse the waveblock start attribute'' s
         | Some nValue \<Rightarrow>
             if nValue < 0 then SetError ''Unable to parse the waveblock start attribute'' s
             else HandleWaveBlock_loop e rest s)
      else HandleWaveBlock_loop e rest s)"

definition HandleWaveBlock :: "env \<Rightarrow> attrs \<Rightarrow> handle \<Rightarrow> bool \<times> handler option \<times> handle" where
  "HandleWaveBlock e as s = (let (ok, s') = HandleWaveBlock_loop e as s in (ok, None, s'))"

definition AddFile :: "int \<Rightarrow> string \<Rightarrow> int \<Rightarrow> int \<Rightarrow> handle \<Rightarrow> handle" where
  "AddFile len filename origin channel s =
     s\<lparr>mFiles := mFiles s @
          [\<lparr>fi_track = mWaveTrack s, fi_clip = mClip s, fi_path = filename,
            fi_len = len, fi_origin = origin, fi_channel = channel\<rparr>],
       mTotalSamples := mTotalSamples s + len\<rparr>"

definition tolower :: "char \<Rightarrow> char" where
  "tolower c =
     (case map_of (zip ''ABCDEFGHIJKLMNOPQRSTUVWXYZ'' ''abcdefghijklmnopqrstuvwxyz'') c of
        None \<Rightarrow> c
      | Some d \<Rightarrow> d)"

definition wxStricmp_eq :: "string \<Rightarrow> string \<Rightarrow> bool" where
  \<comment> \<open>\<open>!wxStricmp(a, b)\<close>: equal when the case of letters is ignored\<close>
  "wxStricmp_eq a b = (map tolower a = map tolower b)"

fun HandleSimpleBlockFile_loop ::
  "env \<Rightarrow> attrs \<Rightarrow> string \<Rightarrow> int \<Rightarrow> handle \<Rightarrow> bool \<times> string \<times> int \<times> handle" where
  "HandleSimpleBlockFile_loop e [] filename len s = (True, filename, len, s)"
| "HandleSimpleBlockFile_loop e ((attr, v) # rest) filename len s =
     (if wxStricmp_eq attr ''filename'' then
        (if IsGoodFileString e v then
           (case map_of (mFileMap s) v of
              Some fn \<Rightarrow> HandleSimpleBlockFile_loop e rest fn len s
            | None \<Rightarrow>
                HandleSimpleBlockFile_loop e rest filename len
                  (snd (SetWarning (''Missing project file '' @ v @ '' Inserting silence instead.'') s)))
         else HandleSimpleBlockFile_loop e rest filename len s)
      else if attr = ''len'' then
        (case parse_longlong e v of
           None \<Rightarrow>
             (False, filename, len,
              snd (SetError ''Missing or invalid simpleblockfile len attribute.'' s))
         | Some nValue \<Rightarrow>
             if nValue \<le> 0
             then (False, filename, len,
                   snd (SetError ''Missing or invalid simpleblockfile len attribute.'' s))
             else HandleSimpleBlockFile_loop e rest filename nValue s)
      else HandleSimpleBlockFile_loop e rest filename len s)"

definition HandleSimpleBlockFile ::
  "env \<Rightarrow> attrs \<Rightarrow> handle \<Rightarrow> bool \<times> handler option \<times> handle" where
  "HandleSimpleBlockFile e as s =
     (case HandleSimpleBlockFile_loop e as [] 0 s of
        (False, filename, len, s') \<Rightarrow> (False, None, s')
      | (True, filename, len, s') \<Rightarrow> (True, None, AddFile len filename 0 0 s'))"

fun HandleSilentBlockFile_loop :: "env \<Rightarrow> attrs \<Rightarrow> int \<Rightarrow> handle \<Rightarrow> bool \<times> int \<times> handle" where
  "HandleSilentBlockFile_loop e [] len s = (True, len, s)"
| "HandleSilentBlockFile_loop e ((attr, v) # rest) len s =
     (if attr = ''len'' then
        (case parse_longlong e v of
           None \<Rightarrow>
             (False, len, snd (SetError ''Missing or invalid silentblockfile len attribute.'' s))
         | Some nValue \<Rightarrow>
             if \<not> (nValue > 0)
             then (False, len,
                   snd (SetError ''Missing or invalid silentblockfile len attribute.'' s))
             else HandleSilentBlockFile_loop e rest nValue s)
      else HandleSilentBlockFile_loop e rest len s)"

definition HandleSilentBlockFile ::
  "env \<Rightarrow> attrs \<Rightarrow> handle \<Rightarrow> bool \<times> handler option \<times> handle" where
  "HandleSilentBlockFile e as s =
     (case HandleSilentBlockFile_loop e as 0 s of
        (False, len, s') \<Rightarrow> (False, None, s')
      | (True, len, s') \<Rightarrow> (True, None, AddFile len [] 0 0 s'))"

record alias_acc =
  a_filename :: string
  a_start :: int
  a_len :: int
  a_channel :: int

fun HandlePCMAliasBlockFile_loop ::
  "env \<Rightarrow> attrs \<Rightarrow> alias_acc \<Rightarrow> handle \<Rightarrow> bool \<times> alias_acc \<times> handle" where
  "HandlePCMAliasBlockFile_loop e [] a s = (True, a, s)"
| "HandlePCMAliasBlockFile_loop e ((attr, v) # rest) a s =
     (if wxStricmp_eq attr ''aliasfile'' then
        (if IsGoodPathName e v
           then HandlePCMAliasBlockFile_loop e rest (a\<lparr>a_filename := v\<rparr>) s
         else if IsGoodFileName e v (mProjDir s)
           then HandlePCMAliasBlockFile_loop e rest
                  (a\<lparr>a_filename := GetPath e (mProjDir s) @ ''/'' @ v\<rparr>) s
         else if IsGoodPathString e v
           then HandlePCMAliasBlockFile_loop e rest a
                  (snd (SetWarning (''Missing alias file '' @ v @ '' Inserting silence instead.'') s))
         else HandlePCMAliasBlockFile_loop e rest a s)
      else if wxStricmp_eq attr ''aliasstart'' then
        (case parse_longlong e v of
           None \<Rightarrow>
             (False, a, snd (SetError ''Missing or invalid pcmaliasblockfile aliasstart attribute.'' s))
         | Some nValue \<Rightarrow>
             if nValue < 0
             then (False, a,
                   snd (SetError ''Missing or invalid pcmaliasblockfile aliasstart attribute.'' s))
             else HandlePCMAliasBlockFile_loop e rest (a\<lparr>a_start := nValue\<rparr>) s)
      else if wxStricmp_eq attr ''aliaslen'' then
        (case parse_longlong e v of
           None \<Rightarrow>
             (False, a, snd (SetError ''Missing or invalid pcmaliasblockfile aliaslen attribute.'' s))
         | Some nValue \<Rightarrow>
             if nValue \<le> 0
             then (False, a,
                   snd (SetError ''Missing or invalid pcmaliasblockfile aliaslen attribute.'' s))
             else HandlePCMAliasBlockFile_loop e rest (a\<lparr>a_len := nValue\<rparr>) s)
      else if wxStricmp_eq attr ''aliaschannel'' then
        (case parse_long e v of
           None \<Rightarrow>
             (False, a, snd (SetError ''Missing or invalid pcmaliasblockfile aliaslen attribute.'' s))
         | Some nValue \<Rightarrow>
             if nValue < 0
             then (False, a,
                   snd (SetError ''Missing or invalid pcmaliasblockfile aliaslen attribute.'' s))
             else HandlePCMAliasBlockFile_loop e rest (a\<lparr>a_channel := to_int nValue\<rparr>) s)
      else HandlePCMAliasBlockFile_loop e rest a s)"

definition HandlePCMAliasBlockFile ::
  "env \<Rightarrow> attrs \<Rightarrow> handle \<Rightarrow> bool \<times> handler option \<times> handle" where
  \<comment> \<open>the code after the function's \<open>return true\<close> is never run\<close>
  "HandlePCMAliasBlockFile e as s =
     (case HandlePCMAliasBlockFile_loop e as
             \<lparr>a_filename = [], a_start = 0, a_len = 0, a_channel = 0\<rparr> s of
        (False, a, s') \<Rightarrow> (False, None, s')
      | (True, a, s') \<Rightarrow>
          (True, None, AddFile (a_len a) (a_filename a) (a_start a) (a_channel a) s'))"

section \<open>The tag dispatcher\<close>

definition dispatch ::
  "env \<Rightarrow> project \<Rightarrow> attrs \<Rightarrow> handle \<Rightarrow> (bool \<times> handler option \<times> handle) option" where
  \<comment> \<open>the chain of \<open>mCurrentTag.IsSameAs\<close> tests; \<open>success\<close> starts as false and
      \<open>handler\<close> as \<open>nullptr\<close>\<close>
  "dispatch e p as s =
     (let t = mCurrentTag s in
      if t = ''project'' \<or> t = ''audacityproject'' then Some (HandleProject e as s)
      else if t = ''labeltrack'' then Some (HandleLabelTrack s)
      else if t = ''notetrack'' then Some (HandleNoteTrack e s)
      else if t = ''timetrack'' then Some (HandleTimeTrack p s)
      else if t = ''wavetrack'' then Some (HandleWaveTrack s)
      else if t = ''tags'' then Some (HandleTags e as s)
      else if t = ''tag'' then Some (HandleTag e as s)
      else if t = ''label'' then HandleLabel s
      else if t = ''waveclip'' then HandleWaveClip s
      else if t = ''sequence'' then HandleSequence e as s
      else if t = ''waveblock'' then Some (HandleWaveBlock e as s)
      else if t = ''envelope'' then HandleEnvelope s
      else if t = ''controlpoint'' then HandleControlPoint s
      else if t = ''simpleblockfile'' then Some (HandleSimpleBlockFile e as s)
      else if t = ''silentblockfile'' then Some (HandleSilentBlockFile e as s)
      else if t = ''pcmaliasblockfile'' then Some (HandlePCMAliasBlockFile e as s)
      else Some (False, None, s))"

definition push_handler :: "handler option \<Rightarrow> handle \<Rightarrow> handle" where
  \<comment> \<open>\<open>mHandlers.push_back({mParentTag, mCurrentTag, handler})\<close>\<close>
  "push_handler hdl s =
     s\<lparr>mHandlers := mHandlers s @
          [\<lparr>n_parent = mParentTag s, n_tag = mCurrentTag s, n_handler = hdl\<rparr>]\<rparr>"

definition HandleXMLTag ::
  "env \<Rightarrow> project \<Rightarrow> string \<Rightarrow> attrs \<Rightarrow> handle \<Rightarrow> (bool \<times> handle) option" where
  "HandleXMLTag e p tg as s =
     (if mUpdateResult s \<noteq> Success then Some (False, s)
      else
        (case dispatch e p as (s\<lparr>mParentTag := mCurrentTag s, mCurrentTag := tg\<rparr>) of
           None \<Rightarrow> None
         | Some (success, hdl, s1) \<Rightarrow>
             if \<not> success
             then Some (SetError ''Internal error in importer...tag not recognized'' s1)
             else
               (case hdl of
                  None \<Rightarrow> Some (True, push_handler None s1)
                | Some hp \<Rightarrow>
                    (let s2 = s1\<lparr>delivered := delivered s1 @ [(hp, tg, Some as)]\<rparr>
                     in if entity_HandleXMLTag e hp tg as
                        then Some (True, push_handler (Some hp) s2)
                        else Some (SetError ''Internal error in importer...tag not recognized'' s2)))))"

definition pop_handler :: "handle \<Rightarrow> handle" where
  \<comment> \<open>\<open>mHandlers.pop_back()\<close> and the restoring of the two tag names\<close>
  "pop_handler s =
     (let hs = butlast (mHandlers s) in
      if hs = [] then s\<lparr>mHandlers := hs\<rparr>
      else s\<lparr>mHandlers := hs, mParentTag := n_parent (last hs), mCurrentTag := n_tag (last hs)\<rparr>)"

definition HandleXMLEndTag :: "string \<Rightarrow> handle \<Rightarrow> handle option" where
  "HandleXMLEndTag tg s =
     (if mUpdateResult s \<noteq> Success then Some s
      else if mHandlers s = [] then None
      else if tg = ''waveclip'' then
        (case n_handler (last (mHandlers s)) of
           Some (Obj c) \<Rightarrow>
             if is_kind s WaveClip c
             then Some (pop_handler
                          (s\<lparr>mClip := Some c, delivered := delivered s @ [(Obj c, tg, None)]\<rparr>))
             else None
         | _ \<Rightarrow> None)
      else
        (case n_handler (last (mHandlers s)) of
           None \<Rightarrow> Some (pop_handler s)
         | Some hp \<Rightarrow> Some (pop_handler (s\<lparr>delivered := delivered s @ [(hp, tg, None)]\<rparr>))))"

section \<open>The block resolver\<close>

text \<open>
  Modelled from the spec: \<open>InsertSilence\<close>, \<open>LongSamplesToTime\<close>, \<open>GetEndTime\<close>, \<open>Append\<close>
  and \<open>Flush\<close> of \<open>WaveClip\<close> and \<open>WaveTrack\<close> are not in this file. By the spec a clip
  owns "an ordered sequence of sample runs (silence or decoded)" and "Appended sample
  runs are committed to the owning Clip if present, else directly to the owning
  Track": inserting silence of \<open>LongSamplesToTime(len)\<close> at the end time adds the run
  \<open>Silence len\<close> at the end, and \<open>Append(bufptr, format, cnt)\<close> adds the \<open>cnt\<close> elements
  of the buffer as one run.
\<close>

definition add_run :: "nat \<Rightarrow> run \<Rightarrow> handle \<Rightarrow> handle" where
  "add_run r x s =
     s\<lparr>heap := (heap s)[r := (heap s ! r)\<lparr>e_runs := e_runs (heap s ! r) @ [x]\<rparr>]\<rparr>"

definition AddSilence :: "int \<Rightarrow> handle \<Rightarrow> (bool \<times> handle) option" where
  \<comment> \<open>with a clip, the length is converted by \<open>mWaveTrack->LongSamplesToTime\<close>: a call
      through \<open>mWaveTrack\<close>, null or not\<close>
  "AddSilence len s =
     (case mClip s of
        Some c \<Rightarrow>
          (case mWaveTrack s of
             None \<Rightarrow> None
           | Some t \<Rightarrow> Some (True, add_run c (Silence len) s))
      | None \<Rightarrow>
          (case mWaveTrack s of
             Some t \<Rightarrow> Some (True, add_run t (Silence len) s)
           | None \<Rightarrow> Some (True, s)))"

definition cleanup :: "string \<Rightarrow> int \<Rightarrow> handle \<Rightarrow> (bool \<times> handle) option" where
  \<comment> \<open>the \<open>finally\<close> block when \<open>success\<close> is still false; the function then returns true\<close>
  "cleanup filename len s =
     AddSilence len
       (snd (SetWarning (''Error while processing '' @ filename @ '' Inserting silence.'') s))"

definition write_buf :: "'a list \<Rightarrow> 'a list \<Rightarrow> 'a list" where
  \<comment> \<open>a buffer after \<open>new\<close> was stored from its start\<close>
  "write_buf new buf = take (length buf) new @ drop (length new) buf"

definition SampleBuffer :: "env \<Rightarrow> nat \<Rightarrow> sample list" where
  \<comment> \<open>\<open>cnt\<close> elements of memory nobody has written yet\<close>
  "SampleBuffer e cnt = map (uninitialized e) [0 ..< cnt]"

definition frames_read :: "sndfile \<Rightarrow> nat \<Rightarrow> nat \<Rightarrow> nat" where
  \<comment> \<open>what \<open>sf_readf_short\<close>, \<open>sf_readf_int\<close> and \<open>sf_readf_float\<close> return for a request
      of \<open>cnt\<close> frames at frame \<open>pos\<close>: never more than asked for\<close>
  "frames_read f pos cnt = min cnt (nframes f - pos)"

definition items :: "sndfile \<Rightarrow> (nat \<Rightarrow> 'a) \<Rightarrow> nat \<Rightarrow> nat \<Rightarrow> 'a list" where
  \<comment> \<open>the interleaved items of \<open>n\<close> frames starting at frame \<open>pos\<close>\<close>
  "items f rd pos n = map rd [pos * nat (channels f) ..< (pos + n) * nat (channels f)]"

definition deinterleave :: "'a list \<Rightarrow> int \<Rightarrow> int \<Rightarrow> nat \<Rightarrow> 'a list option" where
  \<comment> \<open>\<open>tmpptr[(channels * i) + channel]\<close> for \<open>i < n\<close>; an index outside the temporary
      buffer is undefined\<close>
  "deinterleave tmp chans channel n =
     (if list_all (\<lambda>i. 0 \<le> chans * int i + channel \<and> chans * int i + channel < int (length tmp))
           [0 ..< n]
      then Some (map (\<lambda>i. tmp ! nat (chans * int i + channel)) [0 ..< n])
      else None)"

definition append_samples :: "sampleFormat \<Rightarrow> sample list \<Rightarrow> handle \<Rightarrow> handle" where
  \<comment> \<open>"Add the samples to the clip/track"\<close>
  "append_samples fmt buf s =
     (case mClip s of
        Some c \<Rightarrow> add_run c (Block fmt buf) s
      | None \<Rightarrow>
          (case mWaveTrack s of
             Some t \<Rightarrow> add_run t (Block fmt buf) s
           | None \<Rightarrow> s))"

definition short_read :: "string \<Rightarrow> int \<Rightarrow> nat \<Rightarrow> handle \<Rightarrow> (bool \<times> handle) option" where
  \<comment> \<open>\<open>if (framesRead != cnt) { SetWarning(...); return true; }\<close> followed by the cleanup\<close>
  "short_read filename len cnt s =
     cleanup filename len
       (snd (SetWarning (''Unable to read samples from '' @ filename) s))"

text \<open>
  The four branches that fill the buffer, in the order of the source; \<open>pos\<close> is the
  frame the file is positioned at. Each ends with what the rest of \<open>AddSamples\<close> does
  after it.
\<close>

definition decode_mono16 ::
  "env \<Rightarrow> sndfile \<Rightarrow> string \<Rightarrow> int \<Rightarrow> nat \<Rightarrow> handle \<Rightarrow> (bool \<times> handle) option" where
  \<comment> \<open>\<open>framesRead = sf_readf_short(sf, (short *) bufptr, cnt)\<close>, and nothing else\<close>
  "decode_mono16 e f filename len pos s =
     (let cnt = nat len; framesRead = frames_read f pos cnt
      in Some (True, append_samples (mFormat s)
                 (write_buf (map S16 (items f (as_short f) pos framesRead)) (SampleBuffer e cnt)) s))"

definition decode_mono24 ::
  "env \<Rightarrow> sndfile \<Rightarrow> string \<Rightarrow> int \<Rightarrow> nat \<Rightarrow> handle \<Rightarrow> (bool \<times> handle) option" where
  "decode_mono24 e f filename len pos s =
     (let cnt = nat len; framesRead = frames_read f pos cnt
      in if framesRead \<noteq> cnt then short_read filename len cnt s
         else Some (True, append_samples (mFormat s)
                      (write_buf (map (\<lambda>w. S24 (signed_drop_bit 8 w))
                                    (items f (as_int f) pos framesRead)) (SampleBuffer e cnt)) s))"

definition decode_direct16 ::
  "env \<Rightarrow> sndfile \<Rightarrow> string \<Rightarrow> int \<Rightarrow> int \<Rightarrow> nat \<Rightarrow> handle \<Rightarrow> (bool \<times> handle) option" where
  "decode_direct16 e f filename len channel pos s =
     (let cnt = nat len; framesRead = frames_read f pos cnt
      in if framesRead \<noteq> cnt then short_read filename len cnt s
         else (case deinterleave (items f (as_short f) pos framesRead)
                      (channels f) channel framesRead of
                 None \<Rightarrow> None
               | Some xs \<Rightarrow>
                   Some (True, append_samples (mFormat s)
                           (write_buf (map S16 xs) (SampleBuffer e cnt)) s)))"

definition decode_float ::
  "env \<Rightarrow> sndfile \<Rightarrow> string \<Rightarrow> int \<Rightarrow> int \<Rightarrow> nat \<Rightarrow> handle \<Rightarrow> (bool \<times> handle) option" where
  "decode_float e f filename len channel pos s =
     (let cnt = nat len; framesRead = frames_read f pos cnt
      in if framesRead \<noteq> cnt then short_read filename len cnt s
         else (case deinterleave (items f (as_float f) pos framesRead)
                      (channels f) channel framesRead of
                 None \<Rightarrow> None
               | Some xs \<Rightarrow>
                   Some (True, append_samples (mFormat s)
                           (write_buf (CopySamples e (mFormat s) xs) (SampleBuffer e cnt)) s)))"

definition AddSamples ::
  "env \<Rightarrow> string \<Rightarrow> int \<Rightarrow> int \<Rightarrow> int \<Rightarrow> handle \<Rightarrow> (bool \<times> handle) option" where
  "AddSamples e filename len origin channel s =
     (case wxFile_Open e filename of
        None \<Rightarrow> cleanup filename len (snd (SetWarning (''Failed to open '' @ filename) s))
      | Some f \<Rightarrow>
          if \<not> sf_open_ok f
            then cleanup filename len (snd (SetWarning (''Failed to open '' @ filename) s))
          else if origin > 0 \<and> \<not> seek_ok f origin
            then cleanup filename len
                   (snd (SetWarning (''Failed to seek to position in '' @ filename) s))
          else
            (let pos = (if origin > 0 then nat origin else 0)
             in
             if channels f = 1 \<and> mFormat s = int16Sample \<and> subtype_is_integer f
               then decode_mono16 e f filename len pos s
             else if channels f = 1 \<and> mFormat s = int24Sample \<and> subtype_is_integer f
               then decode_mono24 e f filename len pos s
             else if mFormat s = int16Sample \<and> \<not> subtype_more_than_16_bits f
               then decode_direct16 e f filename len channel pos s
             else decode_float e f filename len channel pos s))"

section \<open>The import driver\<close>

datatype event = StartTag string attrs | EndTag string

record document =
  events :: "event list"
  wellformed :: bool

text \<open>
  Modelled from the spec: \<open>XMLFileReader::Parse\<close> is not in this file. By the spec the
  tokenizer "turns raw bytes into a sequence of (start-tag, attributes), (end-tag)
  events", is "assumed correct and given", and "feeds events to the Tag Dispatcher";
  \<open>HandleXMLChild\<close> returns \<open>this\<close>, so every event of the document reaches the importer.
  \<open>wellformed\<close> is the verdict \<open>Parse\<close> returns. Events that follow a start tag the
  importer refused change nothing, delivered or not: \<open>HandleXMLTag\<close> returns false only
  with \<open>mUpdateResult\<close> set to \<open>Failed\<close>, and both handlers test that first.
\<close>

fun run_events :: "env \<Rightarrow> project \<Rightarrow> event list \<Rightarrow> handle \<Rightarrow> handle option" where
  "run_events e p [] s = Some s"
| "run_events e p (StartTag tg as # evs) s =
     (case HandleXMLTag e p tg as s of
        None \<Rightarrow> None
      | Some (ok, s') \<Rightarrow> run_events e p evs s')"
| "run_events e p (EndTag tg # evs) s =
     (case HandleXMLEndTag tg s of
        None \<Rightarrow> None
      | Some s' \<Rightarrow> run_events e p evs s')"

definition Parse :: "env \<Rightarrow> project \<Rightarrow> document \<Rightarrow> handle \<Rightarrow> (bool \<times> handle) option" where
  "Parse e p doc s =
     (case run_events e p (events doc) s of
        None \<Rightarrow> None
      | Some s' \<Rightarrow> Some (wellformed doc, s'))"

definition resolve :: "env \<Rightarrow> fileinfo \<Rightarrow> handle \<Rightarrow> (bool \<times> handle) option" where
  \<comment> \<open>the body of the loop over \<open>mFiles\<close>, after the progress check\<close>
  "resolve e fi s =
     (let s1 = s\<lparr>mClip := fi_clip fi, mWaveTrack := fi_track fi\<rparr>
      in if fi_path fi = [] then AddSilence (fi_len fi) s1
         else AddSamples e (fi_path fi) (fi_len fi) (fi_origin fi) (fi_channel fi) s1)"

fun resolve_files ::
  "env \<Rightarrow> nat \<Rightarrow> int \<Rightarrow> fileinfo list \<Rightarrow> handle \<Rightarrow> (bool \<times> handle) option" where
  \<comment> \<open>the loop over \<open>mFiles\<close>; \<open>k\<close> counts the calls of \<open>Update\<close>. The result is \<open>True\<close> when
      the loop was left by its \<open>return mUpdateResult\<close>\<close>
  "resolve_files e k processed [] s = Some (False, s)"
| "resolve_files e k processed (fi # fis) s =
     (let s1 = s\<lparr>mUpdateResult := Update e k processed (mTotalSamples s)\<rparr>
      in if mUpdateResult s1 \<noteq> Success then Some (True, s1)
         else (case resolve e fi s1 of
                 None \<Rightarrow> None
               | Some (ok, s2) \<Rightarrow> resolve_files e (Suc k) (processed + fi_len fi) fis s2))"

definition apply_attrs :: "env \<Rightarrow> project_attrs \<Rightarrow> setting list" where
  \<comment> \<open>the setter calls after the commit, in the order of the source\<close>
  "apply_attrs e a =
     (if haverate a then [SetRate (rate a)] else []) @
     (if havesnapto a then [AS_SetSnapTo (snapto a)] else []) @
     (if haveselectionformat a then [AS_SetSelectionFormat (selectionformat a)] else []) @
     (if haveaudiotimeformat a then [TT_SetAudioTimeFormat (audiotimeformat a)] else []) @
     (if havefrequencyformat a
        then [SSBL_SetFrequencySelectionFormatName (frequencyformat a)] else []) @
     (if havebandwidthformat a
        then [SSBL_SetBandwidthSelectionFormatName (bandwidthformat a)] else []) @
     (if havevpos a then [assign_vpos (vpos a)] else []) @
     (if haveh a then [assign_h (h a)] else []) @
     (if havezoom a then [SetZoom (zoom a)] else []) @
     (if havesel0 a then [setT0 (sel0 a)] else []) @
     (if havesel1 a then [setT1 (sel1 a)] else []) @
     (if EXPERIMENTAL_SPECTRAL_EDITING e \<and> haveselLow a then [setF0 (selLow a)] else []) @
     (if EXPERIMENTAL_SPECTRAL_EDITING e \<and> haveselHigh a then [setF1 (selHigh a)] else [])"

definition isDirty :: "project \<Rightarrow> bool" where
  \<comment> \<open>\<open>history.GetDirty() || !tracks.empty()\<close>, read before anything else\<close>
  "isDirty p = (p_dirty p \<or> p_tracks p \<noteq> [])"

definition Import ::
  "env \<Rightarrow> document \<Rightarrow> project \<Rightarrow> handle \<Rightarrow> (ProgressResult \<times> project \<times> handle) option" where
  "Import e doc p s =
     (case Parse e p doc (s\<lparr>mTotalSamples := 0, mUpdateResult := Success\<rparr>) of
        None \<Rightarrow> None
      | Some (success, s1) \<Rightarrow>
          if \<not> success
          then Some (Failed, p,
                     s1\<lparr>mTracks := [],
                        msgs := msgs s1 @ [MessageBox ''Could not import the project'']\<rparr>)
          else
            (let s2 = (if mErrorMsg s1 \<noteq> []
                       then s1\<lparr>msgs := msgs s1 @ [MessageBox (mErrorMsg s1)]\<rparr> else s1)
             in if mErrorMsg s1 \<noteq> [] \<and> mUpdateResult s1 = Failed then Some (Failed, p, s2)
                else
                  (case resolve_files e 0 0 (mFiles s2) s2 of
                     None \<Rightarrow> None
                   | Some (True, s3) \<Rightarrow> Some (mUpdateResult s3, p, s3)
                   | Some (False, s3) \<Rightarrow>
                       if mUpdateResult s3 = Failed \<or> mUpdateResult s3 = Cancelled
                       then Some (mUpdateResult s3, p, s3\<lparr>mTracks := []\<rparr>)
                       else
                         (let p1 = p\<lparr>p_tracks := p_tracks p @ mTracks s3\<rparr>;
                              s4 = s3\<lparr>mTracks := []\<rparr>
                          in if isDirty p then Some (mUpdateResult s4, p1, s4)
                             else Some (mUpdateResult s4,
                                        p1\<lparr>p_settings := p_settings p1 @
                                              apply_attrs e (mProjectAttrs s4)\<rparr>,
                                        s4)))))"

section \<open>Vocabulary of the claims\<close>

definition vocabulary :: "string list" where
  \<comment> \<open>the tag names \<open>HandleXMLTag\<close> compares with\<close>
  "vocabulary =
     [''project'', ''audacityproject'', ''labeltrack'', ''notetrack'', ''timetrack'',
      ''wavetrack'', ''tags'', ''tag'', ''label'', ''waveclip'', ''sequence'', ''waveblock'',
      ''envelope'', ''controlpoint'', ''simpleblockfile'', ''silentblockfile'',
      ''pcmaliasblockfile'']"

definition required_attrs :: "string list" where
  "required_attrs = [''version'', ''audacityversion'', ''projname'']"

fun nested_envelope_events :: "nat \<Rightarrow> event list \<Rightarrow> bool" where
  \<comment> \<open>envelope and control-point tags, opened and closed, that stay inside the tag
      that was open before them; the number is how many of them are open\<close>
  "nested_envelope_events d [] = True"
| "nested_envelope_events d (StartTag tg as # evs) =
     ((tg = ''envelope'' \<or> tg = ''controlpoint'') \<and> nested_envelope_events (Suc d) evs)"
| "nested_envelope_events d (EndTag tg # evs) =
     ((tg = ''envelope'' \<or> tg = ''controlpoint'') \<and> 0 < d \<and> nested_envelope_events (d - 1) evs)"

definition settings_in_order :: "env \<Rightarrow> project_attrs \<Rightarrow> (bool \<times> setting) list" where
  \<comment> \<open>the order the spec fixes: rate, snap-to, selection-format, time-format,
      frequency-format, bandwidth-format, vertical position, horizontal position,
      zoom, selection bounds; each with its present flag\<close>
  "settings_in_order e a =
     [(haverate a, SetRate (rate a)),
      (havesnapto a, AS_SetSnapTo (snapto a)),
      (haveselectionformat a, AS_SetSelectionFormat (selectionformat a)),
      (haveaudiotimeformat a, TT_SetAudioTimeFormat (audiotimeformat a)),
      (havefrequencyformat a, SSBL_SetFrequencySelectionFormatName (frequencyformat a)),
      (havebandwidthformat a, SSBL_SetBandwidthSelectionFormatName (bandwidthformat a)),
      (havevpos a, assign_vpos (vpos a)),
      (haveh a, assign_h (h a)),
      (havezoom a, SetZoom (zoom a)),
      (havesel0 a, setT0 (sel0 a)),
      (havesel1 a, setT1 (sel1 a)),
      (EXPERIMENTAL_SPECTRAL_EDITING e \<and> haveselLow a, setF0 (selLow a)),
      (EXPERIMENTAL_SPECTRAL_EDITING e \<and> haveselHigh a, setF1 (selHigh a))]"

definition present_settings :: "env \<Rightarrow> project_attrs \<Rightarrow> setting list" where
  "present_settings e a = map snd (filter fst (settings_in_order e a))"

definition owner_of :: "fileinfo \<Rightarrow> nat option" where
  \<comment> \<open>"the owning Clip if present, else the owning Track"\<close>
  "owner_of fi = (case fi_clip fi of Some c \<Rightarrow> Some c | None \<Rightarrow> fi_track fi)"

definition unreadable :: "env \<Rightarrow> handle \<Rightarrow> fileinfo \<Rightarrow> bool" where
  \<comment> \<open>the file of the descriptor cannot be opened or sought, or a branch that compares
      \<open>framesRead\<close> with \<open>cnt\<close> gets fewer frames than it asked for\<close>
  "unreadable e s fi =
     (case wxFile_Open e (fi_path fi) of
        None \<Rightarrow> True
      | Some f \<Rightarrow>
          if \<not> sf_open_ok f then True
          else if fi_origin fi > 0 \<and> \<not> seek_ok f (fi_origin fi) then True
          else if channels f = 1 \<and> mFormat s = int16Sample \<and> subtype_is_integer f then False
          else frames_read f (if fi_origin fi > 0 then nat (fi_origin fi) else 0) (nat (fi_len fi))
                 \<noteq> nat (fi_len fi))"

section \<open>A small project to run the importer on\<close>

definition digit :: "char \<Rightarrow> int option" where
  "digit c = map_of (zip ''0123456789'' [0, 1, 2, 3, 4, 5, 6, 7, 8, 9]) c"

fun decimal_acc :: "string \<Rightarrow> int \<Rightarrow> int option" where
  "decimal_acc [] n = Some n"
| "decimal_acc (c # cs) n =
     (case digit c of None \<Rightarrow> None | Some d \<Rightarrow> decimal_acc cs (10 * n + d))"

definition decimal :: "string \<Rightarrow> int option" where
  \<comment> \<open>a string of decimal digits, with an optional minus sign\<close>
  "decimal v =
     (case v of
        [] \<Rightarrow> None
      | c # cs \<Rightarrow>
          if c = CHR ''-'' then (if cs = [] then None else map_option uminus (decimal_acc cs 0))
          else decimal_acc v 0)"

definition in_range :: "int \<Rightarrow> string \<Rightarrow> bool" where
  "in_range b v = (case decimal v of None \<Rightarrow> False | Some n \<Rightarrow> - b \<le> n \<and> n < b)"

definition demo_file :: sndfile where
  \<comment> \<open>a 16-bit integer file of one channel that holds two frames\<close>
  "demo_file =
     \<lparr>sf_open_ok = True, channels = 1, subtype_is_integer = True,
      subtype_more_than_16_bits = False, seek_ok = (\<lambda>origin. origin \<le> 2), nframes = 2,
      as_short = (\<lambda>i. if i = 0 then 7 else 9),
      as_int = (\<lambda>i. if i = 0 then 7 * 65536 else 9 * 65536),
      as_float = (\<lambda>i. 0)\<rparr>"

definition demo_env :: env where
  "demo_env =
     \<lparr>USE_MIDI = True, EXPERIMENTAL_SPECTRAL_EDITING = True,
      IsGoodString = (\<lambda>v. True),
      IsGoodInt = in_range (2 ^ 31), IsGoodInt64 = in_range (2 ^ 63),
      ToLong = decimal, ToLongLong = decimal,
      CompatibleToDouble = (\<lambda>v. map_option of_int (decimal v)),
      IsValidSampleFormat =
        (\<lambda>n. if n = 131073 then Some int16Sample
             else if n = 262145 then Some int24Sample
             else if n = 262159 then Some floatSample else None),
      IsGoodFileString = (\<lambda>v. True),
      IsGoodPathName = (\<lambda>v. v = ''/music/take.wav''),
      IsGoodFileName = (\<lambda>v d. False),
      IsGoodPathString = (\<lambda>v. True),
      DirExists = (\<lambda>d. d = [''home'', ''song_data'']),
      GetAllFiles = (\<lambda>d. [''/home/song_data/e00/d00/e0000001.au'']),
      wxFileNameFromPath = (\<lambda>fn. drop 24 fn),
      GetPath = concat,
      MakeUpper = (\<lambda>v. v),
      entity_HandleXMLTag = (\<lambda>hp tg as. True),
      Update = (\<lambda>k processed total. Success),
      wxFile_Open =
        (\<lambda>fn. if fn = ''/home/song_data/e00/d00/e0000001.au'' then Some demo_file else None),
      uninitialized = (\<lambda>i. S16 (- 1)),
      CopySamples = (\<lambda>fmt xs. map F32 xs)\<rparr>"

definition fresh_attrs :: project_attrs where
  "fresh_attrs =
     \<lparr>havevpos = False, vpos = 0, haveh = False, h = 0, havezoom = False, zoom = 0,
      havesel0 = False, sel0 = 0, havesel1 = False, sel1 = 0,
      haveselLow = False, selLow = 0, haveselHigh = False, selHigh = 0,
      haverate = False, rate = 0, havesnapto = False, snapto = False,
      haveselectionformat = False, selectionformat = [],
      haveaudiotimeformat = False, audiotimeformat = [],
      havefrequencyformat = False, frequencyformat = [],
      havebandwidthformat = False, bandwidthformat = []\<rparr>"

definition fresh :: handle where
  \<comment> \<open>a handle for \<open>/home/song.aup\<close> before \<open>Import\<close>, with nothing on the heap. The
      constructor initialises neither \<open>mProjectAttrs\<close> nor \<open>mFormat\<close>, \<open>mWaveTrack\<close>, \<open>mClip\<close>
      and \<open>mUpdateResult\<close>. \<open>Import\<close> assigns \<open>mUpdateResult\<close> before it reads it; the other
      four hold here one content they can have: no attribute present, \<open>floatSample\<close> and
      two null pointers. Only runs on concrete inputs start from this handle\<close>
  "fresh =
     \<lparr>heap = [], mFilename = \<lparr>fn_dirs = [''home''], fn_name = ''song''\<rparr>, mTags = [],
      mProjectAttrs = fresh_attrs, mFiles = [], mTotalSamples = 0, mFormat = floatSample,
      mHandlers = [], mParentTag = [], mCurrentTag = [], mProjDir = [], mFileMap = [],
      mTracks = [], mWaveTrack = None, mClip = None, mUpdateResult = Success,
      mErrorMsg = [], msgs = [], delivered = []\<rparr>"

definition constructed ::
  "project_attrs \<Rightarrow> sampleFormat \<Rightarrow> nat option \<Rightarrow> nat option \<Rightarrow> handle" where
  \<comment> \<open>the same handle with any content \<open>a\<close>, \<open>f\<close>, \<open>w\<close>, \<open>c\<close> of the four members that the
      constructor leaves uninitialised\<close>
  "constructed a f w c =
     fresh\<lparr>mProjectAttrs := a, mFormat := f, mWaveTrack := w, mClip := c\<rparr>"

definition empty_project :: project where
  "empty_project = \<lparr>p_dirty = False, p_tracks = [], p_settings = []\<rparr>"

definition consistent :: "handle \<Rightarrow> bool" where
  \<comment> \<open>no fatal error so far, or one with its message\<close>
  "consistent s = (mUpdateResult s = Success \<or> (mUpdateResult s = Failed \<and> mErrorMsg s \<noteq> []))"

definition same_control :: "handle \<Rightarrow> handle \<Rightarrow> bool" where
  \<comment> \<open>the members the block resolver never assigns\<close>
  "same_control s s' =
     (mUpdateResult s' = mUpdateResult s \<and> mTracks s' = mTracks s
      \<and> mProjectAttrs s' = mProjectAttrs s \<and> mFiles s' = mFiles s
      \<and> mTotalSamples s' = mTotalSamples s \<and> mFormat s' = mFormat s)"

definition bypassed :: "nat \<Rightarrow> handle \<Rightarrow> handle \<Rightarrow> bool" where
  \<comment> \<open>\<open>s\<close> is \<open>s0\<close> with a bypassed time track open and \<open>d\<close> envelope or control-point
      tags open under it: nothing was created, passed on or reported as an error, and
      every frame pushed since has a null handler\<close>
  "bypassed d s0 s =
     (heap s = heap s0 \<and> mTracks s = mTracks s0 \<and> mFiles s = mFiles s0
      \<and> mTags s = mTags s0 \<and> delivered s = delivered s0
      \<and> mUpdateResult s = Success \<and> mErrorMsg s = mErrorMsg s0
      \<and> length (mHandlers s) = length (mHandlers s0) + Suc d
      \<and> take (length (mHandlers s0)) (mHandlers s) = mHandlers s0
      \<and> list_all (\<lambda>n. n_handler n = None
                        \<and> (n_tag n = ''timetrack'' \<or> n_tag n = ''envelope''
                             \<or> n_tag n = ''controlpoint''))
            (drop (length (mHandlers s0)) (mHandlers s))
      \<and> mCurrentTag s = n_tag (last (mHandlers s)))"

definition demo_attrs :: attrs where
  \<comment> \<open>the attributes of a root tag that stores a position, the snap-to flag and a rate\<close>
  "demo_attrs =
     [(''version'', ''1.3.0''), (''audacityversion'', ''2.4.2''),
      (''projname'', ''song_data''), (''vpos'', ''7''), (''snapto'', ''on''),
      (''rate'', ''44100'')]"

definition view_doc :: document where
  \<comment> \<open>a project with no tracks\<close>
  "view_doc =
     \<lparr>events = [StartTag ''project'' demo_attrs, EndTag ''project''], wellformed = True\<rparr>"

definition two_attrs_doc :: document where
  \<comment> \<open>a root tag without \<open>projname\<close>\<close>
  "two_attrs_doc =
     \<lparr>events =
        [StartTag ''project''
           [(''version'', ''1.3.0''), (''audacityversion'', ''2.4.2''), (''rate'', ''44100'')],
         EndTag ''project''],
      wellformed = True\<rparr>"

definition stray_point_doc :: document where
  \<comment> \<open>a control point directly under the root tag\<close>
  "stray_point_doc =
     \<lparr>events =
        [StartTag ''project'' demo_attrs, StartTag ''controlpoint'' [],
         EndTag ''controlpoint'', EndTag ''project''],
      wellformed = True\<rparr>"

definition tagged_unknown_doc :: document where
  \<comment> \<open>a metadata tag, and after it a tag the importer does not know\<close>
  "tagged_unknown_doc =
     \<lparr>events =
        [StartTag ''project'' demo_attrs, StartTag ''tags'' [],
         StartTag ''tag'' [(''name'', ''TITLE''), (''value'', ''Song'')], EndTag ''tag'',
         EndTag ''tags'', StartTag ''effect'' [], EndTag ''effect'', EndTag ''project''],
      wellformed = True\<rparr>"

definition two_time_tracks_doc :: document where
  \<comment> \<open>two time tracks under the root tag, the second with an envelope and a control point\<close>
  "two_time_tracks_doc =
     \<lparr>events =
        [StartTag ''project'' demo_attrs,
         StartTag ''timetrack'' [], EndTag ''timetrack'',
         StartTag ''timetrack'' [], StartTag ''envelope'' [], StartTag ''controlpoint'' [],
         EndTag ''controlpoint'', EndTag ''envelope'', EndTag ''timetrack'',
         EndTag ''project''],
      wellformed = True\<rparr>"

definition silent_doc :: document where
  \<comment> \<open>one wave track that holds one silent block of five samples\<close>
  "silent_doc =
     \<lparr>events =
        [StartTag ''wavetrack'' [], StartTag ''silentblockfile'' [(''len'', ''5'')],
         EndTag ''silentblockfile'', EndTag ''wavetrack''],
      wellformed = True\<rparr>"

definition silent_parsed :: handle where
  \<comment> \<open>the fresh handle after \<open>silent_doc\<close> was parsed\<close>
  "silent_parsed =
     fresh\<lparr>heap := [\<lparr>e_kind = WaveTrack, e_owner = None, e_runs = []\<rparr>],
           mTracks := [0], mWaveTrack := Some 0, mCurrentTag := ''wavetrack'',
           mFiles := [\<lparr>fi_track = Some 0, fi_clip = None, fi_path = [],
                       fi_len = 5, fi_origin = 0, fi_channel = 0\<rparr>],
           mTotalSamples := 5,
           delivered := [(Obj 0, ''wavetrack'', Some []), (Obj 0, ''wavetrack'', None)]\<rparr>"

definition envelope_events :: "event list" where
  "envelope_events =
     [StartTag ''envelope'' [], StartTag ''controlpoint'' [], EndTag ''controlpoint'',
      EndTag ''envelope'']"

definition view_attrs :: project_attrs where
  "view_attrs =
     fresh_attrs\<lparr>havevpos := True, vpos := 7, haverate := True, rate := 44100,
                 havesnapto := True, snapto := True\<rparr>"

definition view_parsed :: handle where
  \<comment> \<open>the fresh handle after the root tag with \<open>demo_attrs\<close> was opened and closed\<close>
  "view_parsed =
     fresh\<lparr>mProjectAttrs := view_attrs, mCurrentTag := ''project'',
           mProjDir := [''home'', ''song_data''],
           mFileMap := [(''e0000001.au'', ''/home/song_data/e00/d00/e0000001.au'')]\<rparr>"

definition view_opened :: handle where
  \<comment> \<open>the same with the root tag still open\<close>
  "view_opened =
     view_parsed\<lparr>mHandlers := [\<lparr>n_parent = [], n_tag = ''project'', n_handler = None\<rparr>]\<rparr>"

definition one_track :: handle where
  \<comment> \<open>the fresh handle with one empty wave track of 16-bit samples: \<open>mWaveTrack\<close>, \<open>mClip\<close>
      and \<open>mFormat\<close> as a wavetrack tag and a sequence tag assign them\<close>
  "one_track =
     fresh\<lparr>heap := [\<lparr>e_kind = WaveTrack, e_owner = None, e_runs = []\<rparr>],
           mTracks := [0], mWaveTrack := Some 0, mClip := None, mFormat := int16Sample,
           mFileMap := [(''e0000001.au'', ''/home/song_data/e00/d00/e0000001.au'')]\<rparr>"

definition time_handle :: handle where
  \<comment> \<open>the fresh handle when the heap holds a time track of the project\<close>
  "time_handle = fresh\<lparr>heap := [\<lparr>e_kind = TimeTrack, e_owner = None, e_runs = []\<rparr>]\<rparr>"

definition time_project :: project where
  "time_project = \<lparr>p_dirty = False, p_tracks = [0], p_settings = []\<rparr>"

definition gone_block :: fileinfo where
  \<comment> \<open>four samples of a file that does not exist, for the track at address 0\<close>
  "gone_block =
     \<lparr>fi_track = Some 0, fi_clip = None, fi_path = ''/gone.au'', fi_len = 4,
      fi_origin = 0, fi_channel = 0\<rparr>"

definition long_block :: fileinfo where
  \<comment> \<open>three samples of the demo file, which holds two\<close>
  "long_block =
     \<lparr>fi_track = Some 0, fi_clip = None,
      fi_path = ''/home/song_data/e00/d00/e0000001.au'', fi_len = 3,
      fi_origin = 0, fi_channel = 0\<rparr>"

definition cancel_env :: env where
  \<comment> \<open>the user cancels at the first progress check\<close>
  "cancel_env = demo_env\<lparr>Update := (\<lambda>k processed tot. Cancelled)\<rparr>"

definition inside_clip :: handle where
  \<comment> \<open>the fresh handle with one tag open\<close>
  "inside_clip =
     fresh\<lparr>mHandlers := [\<lparr>n_parent = ''wavetrack'', n_tag = ''waveclip'', n_handler = None\<rparr>]\<rparr>"

section \<open>Errors and the dispatcher: basic facts\<close>

lemma SetError_sel [simp]:
  "fst (SetError m s) = False"
  "mUpdateResult (snd (SetError m s)) = Failed"
  "mErrorMsg (snd (SetError m s)) = (if mErrorMsg s = [] then m else mErrorMsg s)"
  by (simp_all add: SetError_def)

lemma SetError_pair: "SetError m s = (False, snd (SetError m s))"
  by (simp add: SetError_def)

section \<open>Fatal errors are recorded consistently\<close>

lemma consistent_SetError: "m \<noteq> [] \<Longrightarrow> consistent (snd (SetError m s))"
  by (simp add: consistent_def SetError_def)

lemma consistent_SetWarning: "consistent s \<Longrightarrow> consistent (snd (SetWarning m s))"
  by (auto simp add: consistent_def SetWarning_def)

lemma consistent_update [simp]:
  "consistent (s\<lparr>mProjectAttrs := a\<rparr>) = consistent s"
  "consistent (s\<lparr>mProjDir := d\<rparr>) = consistent s"
  "consistent (s\<lparr>mFileMap := fm\<rparr>) = consistent s"
  "consistent (s\<lparr>msgs := ms\<rparr>) = consistent s"
  "consistent (s\<lparr>heap := hp\<rparr>) = consistent s"
  "consistent (s\<lparr>mTracks := ts\<rparr>) = consistent s"
  "consistent (s\<lparr>mWaveTrack := w\<rparr>) = consistent s"
  "consistent (s\<lparr>mClip := c\<rparr>) = consistent s"
  "consistent (s\<lparr>mTags := tg\<rparr>) = consistent s"
  "consistent (s\<lparr>mFormat := f\<rparr>) = consistent s"
  "consistent (s\<lparr>mFiles := fs\<rparr>) = consistent s"
  "consistent (s\<lparr>mTotalSamples := n\<rparr>) = consistent s"
  "consistent (s\<lparr>mHandlers := hs\<rparr>) = consistent s"
  "consistent (s\<lparr>mParentTag := q\<rparr>) = consistent s"
  "consistent (s\<lparr>mCurrentTag := q\<rparr>) = consistent s"
  "consistent (s\<lparr>delivered := dl\<rparr>) = consistent s"
  by (simp_all add: consistent_def)

lemma consistent_set_double:
  "consistent s \<Longrightarrow> m \<noteq> [] \<Longrightarrow> consistent (snd (snd (set_double e v m upd n s)))"
  by (simp add: set_double_def consistent_SetError split: option.splits)

lemma consistent_HandleProject_attr:
  "consistent s \<Longrightarrow> consistent (snd (snd (HandleProject_attr e a v n s)))"
  by (simp add: HandleProject_attr_def consistent_SetError consistent_set_double Let_def
           split: option.splits prod.splits)

lemma consistent_HandleProject_loop:
  "consistent s \<Longrightarrow> consistent (snd (snd (HandleProject_loop e as n s)))"
proof (induction as arbitrary: n s)
  case Nil
  then show ?case by simp
next
  case (Cons a as)
  obtain x v where a: "a = (x, v)" by (cases a)
  obtain ok n' s' where st: "HandleProject_attr e x v n s = (ok, n', s')"
    by (cases "HandleProject_attr e x v n s")
  have "consistent s'" using consistent_HandleProject_attr [OF Cons.prems, of e x v n] st by simp
  then show ?case using Cons.IH [of s' n'] a st by (cases ok) simp_all
qed


lemma HandleProject_attr_count:
  "HandleProject_attr e a v n s = (ok, n', s') \<Longrightarrow>
     n' \<le> n + (if a \<in> set required_attrs then 1 else 0)"
  by (auto simp add: HandleProject_attr_def set_double_def required_attrs_def Let_def
           split: option.splits prod.splits if_splits)

lemma HandleProject_loop_count:
  "HandleProject_loop e as n s = (ok, n', s') \<Longrightarrow>
     n' \<le> n + length (filter (\<lambda>a. a \<in> set required_attrs) (map fst as))"
proof (induction as arbitrary: n s)
  case Nil
  then show ?case by simp
next
  case (Cons a as)
  obtain x v where a: "a = (x, v)" by (cases a)
  obtain ok1 n1 s1 where st: "HandleProject_attr e x v n s = (ok1, n1, s1)"
    by (cases "HandleProject_attr e x v n s")
  have n1: "n1 \<le> n + (if x \<in> set required_attrs then 1 else 0)"
    using HandleProject_attr_count [OF st] .
  show ?case
  proof (cases ok1)
    case True
    then have "HandleProject_loop e as n1 s1 = (ok, n', s')"
      using Cons.prems a st by simp
    from Cons.IH [OF this] n1 a show ?thesis by (simp split: if_splits)
  next
    case False
    then have "n' = n1" using Cons.prems a st by simp
    with n1 a show ?thesis by (simp split: if_splits)
  qed
qed

lemma few_required:
  assumes "distinct xs" and "\<not> set required_attrs \<subseteq> set xs"
  shows "length (filter (\<lambda>a. a \<in> set required_attrs) xs) < 3"
proof -
  have "length (filter (\<lambda>a. a \<in> set required_attrs) xs)
          = card ({a. a \<in> set required_attrs} \<inter> set xs)"
    using assms(1) by (rule distinct_length_filter)
  also have "\<dots> = card (set required_attrs \<inter> set xs)" by simp
  also have "\<dots> < card (set required_attrs)"
    using assms(2) by (intro psubset_card_mono) auto
  also have "card (set required_attrs) = 3" by (simp add: required_attrs_def)
  finally show ?thesis .
qed

lemma HandleProject_rejects:
  assumes "length (filter (\<lambda>a. a \<in> set required_attrs) (map fst as)) < 3"
  shows "fst (HandleProject e as s) = False"
proof -
  obtain ok n s' where st: "HandleProject_loop e as 0 s = (ok, n, s')"
    by (cases "HandleProject_loop e as 0 s")
  from HandleProject_loop_count [OF st] assms have "n < 3" by simp
  then show ?thesis using st by (cases ok) (simp_all add: HandleProject_def)
qed

lemma consistent_HandleProject:
  "consistent s \<Longrightarrow> consistent (snd (snd (HandleProject e as s)))"
  using consistent_HandleProject_loop [of s e as 0]
  by (auto simp add: HandleProject_def split: prod.splits bool.splits)

lemma HandleProject_handler: "fst (snd (HandleProject e as s)) = None"
  by (simp add: HandleProject_def split: prod.splits bool.splits)

lemma dispatch_project:
  "tg = ''project'' \<or> tg = ''audacityproject'' \<Longrightarrow>
   dispatch e p as (s\<lparr>mParentTag := q, mCurrentTag := tg\<rparr>)
     = Some (HandleProject e as (s\<lparr>mParentTag := q, mCurrentTag := tg\<rparr>))"
  by (auto simp add: dispatch_def)

lemma HandleXMLTag_project_rejects:
  assumes "length (filter (\<lambda>a. a \<in> set required_attrs) (map fst as)) < 3"
      and "tg = ''project'' \<or> tg = ''audacityproject''" and "mUpdateResult s = Success"
  shows "\<exists>s'. HandleXMLTag e p tg as s = Some (False, s')
              \<and> mUpdateResult s' = Failed \<and> mErrorMsg s' \<noteq> []"
proof -
  let ?s1 = "s\<lparr>mParentTag := mCurrentTag s, mCurrentTag := tg\<rparr>"
  obtain ok hdl s2 where hp: "HandleProject e as ?s1 = (ok, hdl, s2)"
    by (cases "HandleProject e as ?s1")
  have "ok = False" using HandleProject_rejects [OF assms(1), of e ?s1] hp by simp
  then have "HandleXMLTag e p tg as s
               = Some (SetError ''Internal error in importer...tag not recognized'' s2)"
    using assms(3) hp by (simp add: HandleXMLTag_def dispatch_project [OF assms(2)])
  then show ?thesis by (simp add: SetError_def)
qed

lemma run_events_failed:
  "mUpdateResult s \<noteq> Success \<Longrightarrow> run_events e p evs s = Some s"
proof (induction evs)
  case Nil
  then show ?case by simp
next
  case (Cons ev evs)
  then show ?case by (cases ev) (simp_all add: HandleXMLTag_def HandleXMLEndTag_def)
qed

lemma Import_after_fatal:
  assumes "run_events e p (events doc) (s\<lparr>mTotalSamples := 0, mUpdateResult := Success\<rparr>) = Some s1"
      and "mUpdateResult s1 = Failed" and "mErrorMsg s1 \<noteq> []"
  shows "\<exists>s'. Import e doc p s = Some (Failed, p, s')"
  using assms by (simp add: Import_def Parse_def Let_def)


lemma consistent_HandleTags_loop:
  "consistent s \<Longrightarrow> consistent (snd (HandleTags_loop e as s))"
  by (induction e as s rule: HandleTags_loop.induct) simp_all

lemma consistent_HandleSequence_attr:
  "consistent s \<Longrightarrow> consistent (snd (HandleSequence_attr e a v s))"
  by (simp add: HandleSequence_attr_def consistent_SetError split: option.splits)

lemma consistent_HandleSequence_loop:
  "consistent s \<Longrightarrow> consistent (snd (HandleSequence_loop e as s))"
proof (induction as arbitrary: s)
  case Nil
  then show ?case by simp
next
  case (Cons a as)
  obtain x v where a: "a = (x, v)" by (cases a)
  obtain ok s' where st: "HandleSequence_attr e x v s = (ok, s')"
    by (cases "HandleSequence_attr e x v s")
  have "consistent s'" using consistent_HandleSequence_attr [OF Cons.prems, of e x v] st by simp
  then show ?case using Cons.IH [of s'] a st by (cases ok) simp_all
qed

lemma consistent_HandleWaveBlock_loop:
  "consistent s \<Longrightarrow> consistent (snd (HandleWaveBlock_loop e as s))"
  by (induction e as s rule: HandleWaveBlock_loop.induct)
     (simp_all add: consistent_SetError split: option.splits)

lemma consistent_HandleSimpleBlockFile_loop:
  "consistent s \<Longrightarrow> consistent (snd (snd (snd (HandleSimpleBlockFile_loop e as fn len s))))"
  by (induction e as fn len s rule: HandleSimpleBlockFile_loop.induct)
     (simp_all add: consistent_SetError consistent_SetWarning split: option.splits)

lemma consistent_HandleSilentBlockFile_loop:
  "consistent s \<Longrightarrow> consistent (snd (snd (HandleSilentBlockFile_loop e as len s)))"
  by (induction e as len s rule: HandleSilentBlockFile_loop.induct)
     (simp_all add: consistent_SetError split: option.splits)

lemma consistent_HandlePCMAliasBlockFile_loop:
  "consistent s \<Longrightarrow> consistent (snd (snd (HandlePCMAliasBlockFile_loop e as a s)))"
  by (induction e as a s rule: HandlePCMAliasBlockFile_loop.induct)
     (simp_all add: consistent_SetError consistent_SetWarning split: option.splits)

lemma consistent_AddFile [simp]: "consistent (AddFile len fn origin channel s) = consistent s"
  by (simp add: AddFile_def consistent_def)

lemma consistent_alloc: "consistent s \<Longrightarrow> consistent (snd (alloc k ow s))"
  by (simp add: alloc_def)

lemma consistent_new_track: "consistent s \<Longrightarrow> consistent (snd (new_track k s))"
  by (simp add: new_track_def alloc_def)

lemma consistent_dispatch:
  assumes "consistent s" and "dispatch e p as s = Some (ok, hdl, s')"
  shows "consistent s'"
proof -
  have tags: "consistent (snd (HandleTags_loop e as s))"
    by (rule consistent_HandleTags_loop [OF assms(1)])
  have seq: "consistent (snd (HandleSequence_loop e as s))"
    by (rule consistent_HandleSequence_loop [OF assms(1)])
  have wb: "consistent (snd (HandleWaveBlock_loop e as s))"
    by (rule consistent_HandleWaveBlock_loop [OF assms(1)])
  have simple: "consistent (snd (snd (snd (HandleSimpleBlockFile_loop e as [] 0 s))))"
    by (rule consistent_HandleSimpleBlockFile_loop [OF assms(1)])
  have silent: "consistent (snd (snd (HandleSilentBlockFile_loop e as 0 s)))"
    by (rule consistent_HandleSilentBlockFile_loop [OF assms(1)])
  have pcm: "consistent (snd (snd (HandlePCMAliasBlockFile_loop e as
               \<lparr>a_filename = [], a_start = 0, a_len = 0, a_channel = 0\<rparr> s)))"
    by (rule consistent_HandlePCMAliasBlockFile_loop [OF assms(1)])
  have proj: "consistent (snd (snd (HandleProject e as s)))"
    by (rule consistent_HandleProject [OF assms(1)])
  show ?thesis
    using assms tags seq wb simple silent pcm proj
    by (auto simp add: dispatch_def Let_def HandleLabelTrack_def HandleNoteTrack_def
          HandleTimeTrack_def HandleWaveTrack_def HandleTags_def HandleTag_def HandleLabel_def
          HandleWaveClip_def HandleSequence_def HandleWaveBlock_def HandleEnvelope_def
          HandleControlPoint_def HandleSimpleBlockFile_def HandleSilentBlockFile_def
          HandlePCMAliasBlockFile_def new_track_def alloc_def RightmostOrNewClip_def
          split: if_splits option.splits prod.splits handler.splits bool.splits)
qed



lemma consistent_push [simp]: "consistent (push_handler hdl s) = consistent s"
  by (simp add: push_handler_def consistent_def)

lemma consistent_pop [simp]: "consistent (pop_handler s) = consistent s"
  by (simp add: pop_handler_def consistent_def Let_def)

lemma HandleXMLTag_consistent:
  assumes "consistent s" and "HandleXMLTag e p tg as s = Some (ok, s')"
  shows "consistent s' \<and> (ok \<or> (mUpdateResult s' = Failed \<and> mErrorMsg s' \<noteq> []))"
proof (cases "mUpdateResult s = Success")
  case False
  then show ?thesis using assms by (auto simp add: HandleXMLTag_def consistent_def)
next
  case True
  let ?s1 = "s\<lparr>mParentTag := mCurrentTag s, mCurrentTag := tg\<rparr>"
  from assms(2) True obtain success hdl s1 where d: "dispatch e p as ?s1 = Some (success, hdl, s1)"
    by (auto simp add: HandleXMLTag_def split: option.splits)
  have c1: "consistent s1" using consistent_dispatch [OF _ d] assms(1) by simp
  show ?thesis
    using assms(2) True d c1
    by (auto simp add: HandleXMLTag_def Let_def SetError_def consistent_def push_handler_def
             split: option.splits if_splits)
qed

lemma HandleXMLEndTag_consistent:
  assumes "consistent s" and "HandleXMLEndTag tg s = Some s'"
  shows "consistent s'"
  using assms
  by (auto simp add: HandleXMLEndTag_def split: if_splits option.splits handler.splits)

lemma run_events_consistent:
  "consistent s \<Longrightarrow> run_events e p evs s = Some s' \<Longrightarrow> consistent s'"
proof (induction evs arbitrary: s)
  case Nil
  then show ?case by simp
next
  case (Cons ev evs)
  show ?case
  proof (cases ev)
    case (StartTag tg as)
    with Cons.prems obtain ok s1 where h: "HandleXMLTag e p tg as s = Some (ok, s1)"
      and r: "run_events e p evs s1 = Some s'"
      by (auto split: option.splits)
    from HandleXMLTag_consistent [OF Cons.prems(1) h] have "consistent s1" by simp
    from Cons.IH [OF this r] show ?thesis .
  next
    case (EndTag tg)
    with Cons.prems obtain s1 where h: "HandleXMLEndTag tg s = Some s1"
      and r: "run_events e p evs s1 = Some s'"
      by (auto split: option.splits)
    from HandleXMLEndTag_consistent [OF Cons.prems(1) h] have "consistent s1" .
    from Cons.IH [OF this r] show ?thesis .
  qed
qed

lemma run_events_append:
  "run_events e p (xs @ ys) s =
     (case run_events e p xs s of None \<Rightarrow> None | Some s' \<Rightarrow> run_events e p ys s')"
proof (induction xs arbitrary: s)
  case Nil
  then show ?case by simp
next
  case (Cons ev xs)
  then show ?case by (cases ev) (simp_all split: option.splits)
qed


section \<open>What the block resolver leaves alone\<close>

lemma same_control_refl [simp]: "same_control s s"
  by (simp add: same_control_def)

lemma same_control_trans: "same_control a b \<Longrightarrow> same_control b c \<Longrightarrow> same_control a c"
  by (simp add: same_control_def)

lemma same_control_SetWarning [simp]: "same_control s (snd (SetWarning m s))"
  by (simp add: same_control_def SetWarning_def)

lemma same_control_add_run [simp]: "same_control s (add_run r x s)"
  by (simp add: same_control_def add_run_def)

lemma same_control_append_samples [simp]: "same_control s (append_samples fmt buf s)"
  by (simp add: append_samples_def split: option.splits)

lemma AddSilence_same:
  assumes "AddSilence len s = Some (b, s')"
  shows "same_control s s' \<and> b"
proof (cases "mClip s")
  case None
  then show ?thesis using assms by (cases "mWaveTrack s") (auto simp add: AddSilence_def)
next
  case (Some c)
  then show ?thesis using assms by (cases "mWaveTrack s") (auto simp add: AddSilence_def)
qed

lemma cleanup_same:
  assumes "cleanup fn len s = Some (b, s')"
  shows "same_control s s' \<and> b"
proof -
  let ?w = "snd (SetWarning (''Error while processing '' @ fn @ '' Inserting silence.'') s)"
  from assms have "AddSilence len ?w = Some (b, s')" by (simp add: cleanup_def)
  from AddSilence_same [OF this] have "same_control ?w s'" and b by simp_all
  moreover have "same_control s ?w" by simp
  ultimately show ?thesis by (blast intro: same_control_trans)
qed

lemma warn_cleanup_same:
  assumes "cleanup fn len (snd (SetWarning m s)) = Some (b, s')"
  shows "same_control s s' \<and> b"
proof -
  from cleanup_same [OF assms] have "same_control (snd (SetWarning m s)) s'" and b by simp_all
  moreover have "same_control s (snd (SetWarning m s))" by simp
  ultimately show ?thesis by (blast intro: same_control_trans)
qed

lemma short_read_same:
  assumes "short_read fn len cnt s = Some (b, s')"
  shows "same_control s s' \<and> b"
  using assms unfolding short_read_def by (rule warn_cleanup_same)


lemma decode_mono16_same:
  "decode_mono16 e f fn len pos s = Some (b, s') \<Longrightarrow> same_control s s' \<and> b"
  by (auto simp add: decode_mono16_def Let_def)

lemma decode_mono24_same:
  assumes "decode_mono24 e f fn len pos s = Some (b, s')"
  shows "same_control s s' \<and> b"
proof (cases "frames_read f pos (nat len) = nat len")
  case True
  then show ?thesis using assms by (auto simp add: decode_mono24_def Let_def)
next
  case False
  then have "short_read fn len (nat len) s = Some (b, s')"
    using assms by (simp add: decode_mono24_def Let_def)
  then show ?thesis by (rule short_read_same)
qed

lemma decode_direct16_same:
  assumes "decode_direct16 e f fn len channel pos s = Some (b, s')"
  shows "same_control s s' \<and> b"
proof (cases "frames_read f pos (nat len) = nat len")
  case True
  then show ?thesis using assms
    by (auto simp add: decode_direct16_def Let_def split: option.splits)
next
  case False
  then have "short_read fn len (nat len) s = Some (b, s')"
    using assms by (simp add: decode_direct16_def Let_def)
  then show ?thesis by (rule short_read_same)
qed

lemma decode_float_same:
  assumes "decode_float e f fn len channel pos s = Some (b, s')"
  shows "same_control s s' \<and> b"
proof (cases "frames_read f pos (nat len) = nat len")
  case True
  then show ?thesis using assms
    by (auto simp add: decode_float_def Let_def split: option.splits)
next
  case False
  then have "short_read fn len (nat len) s = Some (b, s')"
    using assms by (simp add: decode_float_def Let_def)
  then show ?thesis by (rule short_read_same)
qed

lemma AddSamples_same:
  assumes "AddSamples e fn len origin channel s = Some (b, s')"
  shows "same_control s s' \<and> b"
proof (cases "wxFile_Open e fn")
  case None
  then have "cleanup fn len (snd (SetWarning (''Failed to open '' @ fn) s)) = Some (b, s')"
    using assms by (simp add: AddSamples_def)
  then show ?thesis by (rule warn_cleanup_same)
next
  case (Some f)
  show ?thesis
  proof (cases "sf_open_ok f")
    case False
    then have "cleanup fn len (snd (SetWarning (''Failed to open '' @ fn) s)) = Some (b, s')"
      using assms Some by (simp add: AddSamples_def)
    then show ?thesis by (rule warn_cleanup_same)
  next
    case True
    show ?thesis
    proof (cases "origin > 0 \<and> \<not> seek_ok f origin")
      case True
      then have "cleanup fn len (snd (SetWarning (''Failed to seek to position in '' @ fn) s))
                   = Some (b, s')"
        using assms Some \<open>sf_open_ok f\<close> by (simp add: AddSamples_def)
      then show ?thesis by (rule warn_cleanup_same)
    next
      case False
      let ?pos = "if origin > 0 then nat origin else 0"
      from assms Some \<open>sf_open_ok f\<close> False
      consider "decode_mono16 e f fn len ?pos s = Some (b, s')"
        | "decode_mono24 e f fn len ?pos s = Some (b, s')"
        | "decode_direct16 e f fn len channel ?pos s = Some (b, s')"
        | "decode_float e f fn len channel ?pos s = Some (b, s')"
        by (simp add: AddSamples_def Let_def split: if_splits)
      then show ?thesis
        by cases (erule decode_mono16_same decode_mono24_same decode_direct16_same
                        decode_float_same)+
    qed
  qed
qed

lemma resolve_same:
  assumes "resolve e fi s = Some (b, s')"
  shows "same_control s s' \<and> b"
proof -
  let ?s1 = "s\<lparr>mClip := fi_clip fi, mWaveTrack := fi_track fi\<rparr>"
  have s1: "same_control s ?s1" by (simp add: same_control_def)
  have "same_control ?s1 s' \<and> b"
  proof (cases "fi_path fi = []")
    case True
    then have "AddSilence (fi_len fi) ?s1 = Some (b, s')"
      using assms by (simp add: resolve_def)
    then show ?thesis by (rule AddSilence_same)
  next
    case False
    then have "AddSamples e (fi_path fi) (fi_len fi) (fi_origin fi) (fi_channel fi) ?s1
                 = Some (b, s')"
      using assms by (simp add: resolve_def)
    then show ?thesis by (rule AddSamples_same)
  qed
  with s1 show ?thesis by (blast intro: same_control_trans)
qed

lemma resolve_files_result:
  "resolve_files e k processed fis s = Some (early, s') \<Longrightarrow>
     mTracks s' = mTracks s \<and> mProjectAttrs s' = mProjectAttrs s
     \<and> (if early then mUpdateResult s' \<noteq> Success
         else mUpdateResult s' = (if fis = [] then mUpdateResult s else Success))"
proof (induction fis arbitrary: k processed s)
  case Nil
  then show ?case by simp
next
  case (Cons fi fis)
  let ?s1 = "s\<lparr>mUpdateResult := Update e k processed (mTotalSamples s)\<rparr>"
  show ?case
  proof (cases "Update e k processed (mTotalSamples s) = Success")
    case False
    then show ?thesis using Cons.prems by (auto simp add: Let_def)
  next
    case True
    with Cons.prems obtain b s2 where r: "resolve e fi ?s1 = Some (b, s2)"
      and rest: "resolve_files e (Suc k) (processed + fi_len fi) fis s2 = Some (early, s')"
      by (auto simp add: Let_def split: option.splits)
    from resolve_same [OF r] have sc: "same_control ?s1 s2" by simp
    from Cons.IH [OF rest] sc True show ?thesis
      by (auto simp add: same_control_def split: if_splits)
  qed
qed


section \<open>How an import can end\<close>

lemma Import_outcome:
  assumes "Import e doc p s = Some (r, p', s')"
  shows "(r \<noteq> Success \<longrightarrow> p' = p)
       \<and> (r = Success \<longrightarrow>
            wellformed doc \<and> p_dirty p' = p_dirty p \<and> mTracks s' = []
            \<and> (\<exists>s1. run_events e p (events doc) (s\<lparr>mTotalSamples := 0, mUpdateResult := Success\<rparr>)
                       = Some s1
                   \<and> mUpdateResult s1 = Success
                   \<and> p_tracks p' = p_tracks p @ mTracks s1)
            \<and> p_settings p' = (if isDirty p then p_settings p
                                else p_settings p @ apply_attrs e (mProjectAttrs s')))"
proof -
  let ?s0 = "s\<lparr>mTotalSamples := 0, mUpdateResult := Success\<rparr>"
  from assms obtain s1 where run: "run_events e p (events doc) ?s0 = Some s1"
    by (auto simp add: Import_def Parse_def split: option.splits)
  have "consistent ?s0" by (simp add: consistent_def)
  from run_events_consistent [OF this run] have c1: "consistent s1" .
  show ?thesis
  proof (cases "wellformed doc")
    case False
    then show ?thesis using assms run by (auto simp add: Import_def Parse_def)
  next
    case True
    note wf = this
    show ?thesis
    proof (cases "mErrorMsg s1 \<noteq> [] \<and> mUpdateResult s1 = Failed")
      case True
      then show ?thesis using assms run wf by (auto simp add: Import_def Parse_def Let_def)
    next
      case False
      with c1 have ok1: "mUpdateResult s1 = Success" by (auto simp add: consistent_def)
      let ?s2 = "if mErrorMsg s1 \<noteq> [] then s1\<lparr>msgs := msgs s1 @ [MessageBox (mErrorMsg s1)]\<rparr>
                 else s1"
      have s2: "mUpdateResult ?s2 = Success" "mTracks ?s2 = mTracks s1"
        using ok1 by simp_all
      from assms run wf False obtain early s3
        where loop: "resolve_files e 0 0 (mFiles ?s2) ?s2 = Some (early, s3)"
        by (auto simp add: Import_def Parse_def Let_def split: option.splits)
      from resolve_files_result [OF loop] s2
      have r3: "mTracks s3 = mTracks s1"
        and u3: "if early then mUpdateResult s3 \<noteq> Success else mUpdateResult s3 = Success"
        by (auto split: if_splits)
      show ?thesis
      proof (cases early)
        case True
        then have "r = mUpdateResult s3" and "p' = p"
          using assms run wf False loop ok1 by (auto simp add: Import_def Parse_def Let_def)
        with True u3 show ?thesis by simp
      next
        case False
        with u3 have u: "mUpdateResult s3 = Success" by simp
        from assms run wf \<open>\<not> (mErrorMsg s1 \<noteq> [] \<and> mUpdateResult s1 = Failed)\<close> loop False u
        have res: "r = Success" "s' = s3\<lparr>mTracks := []\<rparr>"
          "p' = (if isDirty p then p\<lparr>p_tracks := p_tracks p @ mTracks s3\<rparr>
                 else p\<lparr>p_tracks := p_tracks p @ mTracks s3,
                         p_settings := p_settings p @ apply_attrs e (mProjectAttrs s3)\<rparr>)"
          by (auto simp add: Import_def Parse_def Let_def split: if_splits)
        show ?thesis using res wf run ok1 r3 by simp
      qed
    qed
  qed
qed


section \<open>The demo project, step by step\<close>

lemma fresh_sel [simp]:
  "heap fresh = []" "mFilename fresh = \<lparr>fn_dirs = [''home''], fn_name = ''song''\<rparr>"
  "mTags fresh = []" "mProjectAttrs fresh = fresh_attrs" "mFiles fresh = []"
  "mTotalSamples fresh = 0" "mFormat fresh = floatSample" "mHandlers fresh = []"
  "mParentTag fresh = []" "mCurrentTag fresh = []" "mProjDir fresh = []" "mFileMap fresh = []"
  "mTracks fresh = []" "mWaveTrack fresh = None" "mClip fresh = None"
  "mUpdateResult fresh = Success" "mErrorMsg fresh = []" "msgs fresh = []" "delivered fresh = []"
  by (simp_all add: fresh_def)

lemma fresh_reset [simp]: "fresh\<lparr>mTotalSamples := 0, mUpdateResult := Success\<rparr> = fresh"
  by (simp add: fresh_def)

lemma constructed_sel [simp]:
  "heap (constructed a f w c) = []"
  "mFilename (constructed a f w c) = \<lparr>fn_dirs = [''home''], fn_name = ''song''\<rparr>"
  "mTags (constructed a f w c) = []" "mProjectAttrs (constructed a f w c) = a"
  "mFiles (constructed a f w c) = []" "mTotalSamples (constructed a f w c) = 0"
  "mFormat (constructed a f w c) = f" "mHandlers (constructed a f w c) = []"
  "mParentTag (constructed a f w c) = []" "mCurrentTag (constructed a f w c) = []"
  "mProjDir (constructed a f w c) = []" "mFileMap (constructed a f w c) = []"
  "mTracks (constructed a f w c) = []" "mWaveTrack (constructed a f w c) = w"
  "mClip (constructed a f w c) = c" "mUpdateResult (constructed a f w c) = Success"
  "mErrorMsg (constructed a f w c) = []" "msgs (constructed a f w c) = []"
  "delivered (constructed a f w c) = []"
  by (simp_all add: constructed_def)

lemma constructed_reset [simp]:
  "(constructed a f w c)\<lparr>mTotalSamples := 0, mUpdateResult := Success\<rparr> = constructed a f w c"
  by (simp add: constructed_def fresh_def)

lemma fresh_constructed: "fresh = constructed fresh_attrs floatSample None None"
  by (simp add: constructed_def fresh_def)

lemma demo_env_sel [simp]:
  "USE_MIDI demo_env = True" "EXPERIMENTAL_SPECTRAL_EDITING demo_env = True"
  "IsGoodString demo_env v = True"
  "IsGoodInt demo_env = in_range (2 ^ 31)" "IsGoodInt64 demo_env = in_range (2 ^ 63)"
  "ToLong demo_env = decimal" "ToLongLong demo_env = decimal"
  "CompatibleToDouble demo_env v = map_option of_int (decimal v)"
  "IsGoodFileString demo_env v = True"
  "DirExists demo_env d = (d = [''home'', ''song_data''])"
  "GetAllFiles demo_env d = [''/home/song_data/e00/d00/e0000001.au'']"
  "wxFileNameFromPath demo_env fn = drop 24 fn"
  "entity_HandleXMLTag demo_env hp tg as = True"
  "Update demo_env k processed tot = Success"
  "wxFile_Open demo_env fn =
     (if fn = ''/home/song_data/e00/d00/e0000001.au'' then Some demo_file else None)"
  "uninitialized demo_env i = S16 (- 1)"
  by (simp_all add: demo_env_def)

lemma cancel_env_sel [simp]:
  "IsGoodInt64 cancel_env = in_range (2 ^ 63)" "ToLongLong cancel_env = decimal"
  "entity_HandleXMLTag cancel_env hp tg as = True"
  "Update cancel_env k processed tot = Cancelled"
  by (simp_all add: cancel_env_def)

lemma demo_file_sel [simp]:
  "sf_open_ok demo_file = True" "channels demo_file = 1" "subtype_is_integer demo_file = True"
  "subtype_more_than_16_bits demo_file = False" "nframes demo_file = 2"
  "as_short demo_file i = (if i = 0 then 7 else 9)"
  by (simp_all add: demo_file_def)

lemma empty_project_sel [simp]:
  "p_dirty empty_project = False" "p_tracks empty_project = []" "p_settings empty_project = []"
  by (simp_all add: empty_project_def)

lemma demo_numbers [simp]:
  "decimal ''7'' = Some 7" "decimal ''44100'' = Some 44100" "decimal ''5'' = Some 5"
  by (simp_all add: decimal_def digit_def)

lemma demo_in_range [simp]:
  "in_range 2147483648 ''7''" "in_range 9223372036854775808 ''5''"
  by (simp_all add: in_range_def)

lemma to_int_7 [simp]: "to_int 7 = 7"
  by (simp add: to_int_def)

lemma view_parsed_sel [simp]:
  "mErrorMsg view_parsed = []" "mFiles view_parsed = []" "mUpdateResult view_parsed = Success"
  "mTracks view_parsed = []" "mProjectAttrs view_parsed = view_attrs"
  "mHandlers view_parsed = []" "mCurrentTag view_parsed = ''project''"
  by (simp_all add: view_parsed_def)

lemma view_opened_sel [simp]:
  "mUpdateResult view_opened = Success" "mCurrentTag view_opened = ''project''"
  "mHandlers view_opened = [\<lparr>n_parent = [], n_tag = ''project'', n_handler = None\<rparr>]"
  by (simp_all add: view_opened_def)

lemma one_track_sel [simp]:
  "heap one_track = [\<lparr>e_kind = WaveTrack, e_owner = None, e_runs = []\<rparr>]"
  "mTracks one_track = [0]" "mWaveTrack one_track = Some 0" "mClip one_track = None"
  "mFormat one_track = int16Sample" "mUpdateResult one_track = Success"
  "mErrorMsg one_track = []" "msgs one_track = []" "mFiles one_track = []"
  "mTotalSamples one_track = 0" "mCurrentTag one_track = []"
  "mFileMap one_track = [(''e0000001.au'', ''/home/song_data/e00/d00/e0000001.au'')]"
  by (simp_all add: one_track_def)

lemma open_project:
  "HandleXMLTag demo_env empty_project ''project'' demo_attrs fresh = Some (True, view_opened)"
  by (simp add: HandleXMLTag_def dispatch_def HandleProject_def HandleProject_attr_def
        set_double_def parse_long_def find_data_dir_def hash_files_def push_handler_def
        view_opened_def view_parsed_def view_attrs_def demo_attrs_def Let_def)

lemma close_project: "HandleXMLEndTag ''project'' view_opened = Some view_parsed"
  by (simp add: HandleXMLEndTag_def pop_handler_def view_opened_def view_parsed_def)

lemma view_run: "run_events demo_env empty_project (events view_doc) fresh = Some view_parsed"
  by (simp add: view_doc_def open_project close_project)

lemma view_import:
  "Import demo_env view_doc empty_project fresh
     = Some (Success,
             empty_project\<lparr>p_settings := [SetRate 44100, AS_SetSnapTo True, assign_vpos 7]\<rparr>,
             view_parsed\<lparr>mTracks := []\<rparr>)"
proof -
  have "wellformed view_doc" by (simp add: view_doc_def)
  then show ?thesis
    by (simp add: Import_def Parse_def view_run apply_attrs_def isDirty_def view_attrs_def
          fresh_attrs_def)
qed

lemma silent_run:
  assumes "entity_HandleXMLTag e (Obj 0) ''wavetrack'' []" and "parse_longlong e ''5'' = Some 5"
  shows "run_events e empty_project (events silent_doc) fresh = Some silent_parsed"
  using assms
  by (simp add: silent_doc_def HandleXMLTag_def dispatch_def HandleWaveTrack_def new_track_def
        alloc_def push_handler_def HandleSilentBlockFile_def AddFile_def HandleXMLEndTag_def
        pop_handler_def silent_parsed_def Let_def)

lemma silent_parsed_sel [simp]:
  "mErrorMsg silent_parsed = []" "mUpdateResult silent_parsed = Success"
  "mTracks silent_parsed = [0]" "mTotalSamples silent_parsed = 5" "msgs silent_parsed = []"
  "heap silent_parsed = [\<lparr>e_kind = WaveTrack, e_owner = None, e_runs = []\<rparr>]"
  "mFiles silent_parsed = [\<lparr>fi_track = Some 0, fi_clip = None, fi_path = [],
                            fi_len = 5, fi_origin = 0, fi_channel = 0\<rparr>]"
  by (simp_all add: silent_parsed_def)

lemma silent_run_demo:
  "run_events demo_env empty_project (events silent_doc) fresh = Some silent_parsed"
  by (rule silent_run) (simp_all add: parse_longlong_def)

lemma silent_run_cancel:
  "run_events cancel_env empty_project (events silent_doc) fresh = Some silent_parsed"
  by (rule silent_run) (simp_all add: parse_longlong_def)

section \<open>C1: nothing reaches the project before the commit\<close>

text \<open>
  What holds of every import: the project is returned as it was unless the import
  returns \<open>Success\<close>; tracks are added only by an import that returns \<open>Success\<close> on
  a document the tokenizer accepted; and a successful import leaves \<open>mTracks\<close> empty.
\<close>

theorem import_commits_on_success_only:
  assumes "Import e doc p s = Some (r, p', s')"
  shows "(r \<noteq> Success \<longrightarrow> p' = p)
       \<and> (p_tracks p' \<noteq> p_tracks p \<longrightarrow> r = Success \<and> wellformed doc)
       \<and> (r = Success \<longrightarrow> mTracks s' = [])"
  using Import_outcome [OF assms] by (cases "r = Success") auto

theorem import_commits_on_success_only_witness:
  "map_option (\<lambda>(r, p', s'). (r, p'))
     (Import cancel_env silent_doc empty_project fresh) = Some (Cancelled, empty_project)"
proof -
  obtain r p' s' where
    i: "Import cancel_env silent_doc empty_project fresh = Some (r, p', s')"
    and r: "r = Cancelled"
    using silent_run_cancel by (simp add: Import_def Parse_def silent_doc_def Let_def)
  from import_commits_on_success_only [OF i] r i show ?thesis by simp
qed

text \<open>
  C1. The claim also says that on a cancellation signalled by the progress check
  \<open>Import\<close> discards all constructed entities. The loop leaves \<open>Import\<close> by
  \<open>return mUpdateResult\<close>, before the \<open>mTracks.clear()\<close> that follows the loop: on
  \<open>silent_doc\<close>, cancelled at the first check, \<open>Import\<close> returns \<open>Cancelled\<close> and the
  project is untouched, but \<open>mTracks\<close> still holds the wave track that was built.
\<close>

theorem cancelled_import_keeps_tracks:
  "map_option (\<lambda>(r, p', s'). (r, p', mTracks s', map e_kind (heap s')))
     (Import cancel_env silent_doc empty_project fresh)
     = Some (Cancelled, empty_project, [0], [WaveTrack])"
proof -
  have "wellformed silent_doc" by (simp add: silent_doc_def)
  then show ?thesis
    by (simp add: Import_def Parse_def silent_run_cancel Let_def)
qed

section \<open>C2: a block that cannot be read becomes silence\<close>

lemma length_write_buf [simp]: "length (write_buf new buf) = length buf"
  by (simp add: write_buf_def)

lemma length_SampleBuffer [simp]: "length (SampleBuffer e cnt) = cnt"
  by (simp add: SampleBuffer_def)

lemma add_run_sel [simp]:
  "heap (add_run r x s) = (heap s)[r := (heap s ! r)\<lparr>e_runs := e_runs (heap s ! r) @ [x]\<rparr>]"
  "msgs (add_run r x s) = msgs s" "mErrorMsg (add_run r x s) = mErrorMsg s"
  "mUpdateResult (add_run r x s) = mUpdateResult s"
  by (simp_all add: add_run_def)

lemma SetWarning_sel [simp]:
  "heap (snd (SetWarning m s)) = heap s"
  "mClip (snd (SetWarning m s)) = mClip s"
  "mWaveTrack (snd (SetWarning m s)) = mWaveTrack s"
  "mUpdateResult (snd (SetWarning m s)) = mUpdateResult s"
  "msgs (snd (SetWarning m s)) = msgs s @ [LogWarning m]"
  "mErrorMsg (snd (SetWarning m s)) = (if mErrorMsg s = [] then m else mErrorMsg s)"
  by (simp_all add: SetWarning_def)

lemma AddSilence_owned:
  assumes "mWaveTrack s \<noteq> None"
      and "(case mClip s of Some c \<Rightarrow> Some c | None \<Rightarrow> mWaveTrack s) = Some r"
  shows "AddSilence len s = Some (True, add_run r (Silence len) s)"
  using assms by (auto simp add: AddSilence_def split: option.splits)

lemma cleanup_owned:
  assumes "mWaveTrack s \<noteq> None"
      and "(case mClip s of Some c \<Rightarrow> Some c | None \<Rightarrow> mWaveTrack s) = Some r"
  shows "\<exists>s'. cleanup fn len (snd (SetWarning m s)) = Some (True, s')
            \<and> heap s' = (heap s)[r := (heap s ! r)\<lparr>e_runs := e_runs (heap s ! r) @ [Silence len]\<rparr>]
            \<and> mUpdateResult s' = mUpdateResult s
            \<and> (\<exists>w1 w2. msgs s' = msgs s @ [LogWarning w1, LogWarning w2])
            \<and> (m \<noteq> [] \<longrightarrow> mErrorMsg s' \<noteq> [])"
proof -
  let ?w = "snd (SetWarning (''Error while processing '' @ fn @ '' Inserting silence.'')
                   (snd (SetWarning m s)))"
  have "mWaveTrack ?w \<noteq> None" using assms(1) by simp
  moreover have "(case mClip ?w of Some c \<Rightarrow> Some c | None \<Rightarrow> mWaveTrack ?w) = Some r"
    using assms(2) by (cases "mClip s") simp_all
  ultimately have "AddSilence len ?w = Some (True, add_run r (Silence len) ?w)"
    by (rule AddSilence_owned)
  then show ?thesis by (simp add: cleanup_def)
qed

lemma unreadable_format:
  "mFormat s' = mFormat s \<Longrightarrow> unreadable e s' fi = unreadable e s fi"
  by (cases "wxFile_Open e (fi_path fi)") (simp_all add: unreadable_def)

lemma AddSamples_unreadable:
  assumes "mWaveTrack s \<noteq> None"
      and "(case mClip s of Some c \<Rightarrow> Some c | None \<Rightarrow> mWaveTrack s) = Some r"
      and bad: "unreadable e s fi"
  shows "\<exists>s'. AddSamples e (fi_path fi) (fi_len fi) (fi_origin fi) (fi_channel fi) s = Some (True, s')
            \<and> heap s' = (heap s)[r := (heap s ! r)\<lparr>e_runs := e_runs (heap s ! r) @ [Silence (fi_len fi)]\<rparr>]
            \<and> mUpdateResult s' = mUpdateResult s
            \<and> (\<exists>w1 w2. msgs s' = msgs s @ [LogWarning w1, LogWarning w2])
            \<and> mErrorMsg s' \<noteq> []"
proof -
  let ?fn = "fi_path fi" and ?len = "fi_len fi" and ?origin = "fi_origin fi"
  have c: "\<And>m. m \<noteq> [] \<Longrightarrow> \<exists>s'. cleanup ?fn ?len (snd (SetWarning m s)) = Some (True, s')
            \<and> heap s' = (heap s)[r := (heap s ! r)\<lparr>e_runs := e_runs (heap s ! r) @ [Silence ?len]\<rparr>]
            \<and> mUpdateResult s' = mUpdateResult s
            \<and> (\<exists>w1 w2. msgs s' = msgs s @ [LogWarning w1, LogWarning w2])
            \<and> mErrorMsg s' \<noteq> []"
    using cleanup_owned [OF assms(1,2)] by blast
  show ?thesis
  proof (cases "wxFile_Open e ?fn")
    case None
    then show ?thesis using c [of "''Failed to open '' @ ?fn"] by (simp add: AddSamples_def)
  next
    case (Some f)
    show ?thesis
    proof (cases "sf_open_ok f")
      case False
      then show ?thesis using Some c [of "''Failed to open '' @ ?fn"] by (simp add: AddSamples_def)
    next
      case True
      note ok = this
      show ?thesis
      proof (cases "?origin > 0 \<and> \<not> seek_ok f ?origin")
        case True
        then show ?thesis using Some ok c [of "''Failed to seek to position in '' @ ?fn"]
          by (simp add: AddSamples_def)
      next
        case False
        with bad Some ok
        have nm: "\<not> (channels f = 1 \<and> mFormat s = int16Sample \<and> subtype_is_integer f)"
          and sr: "frames_read f (if ?origin > 0 then nat ?origin else 0) (nat ?len) \<noteq> nat ?len"
          by (auto simp add: unreadable_def split: if_splits)
        have "AddSamples e ?fn ?len ?origin (fi_channel fi) s = short_read ?fn ?len (nat ?len) s"
          using Some ok False nm sr
          by (auto simp add: AddSamples_def decode_mono24_def decode_direct16_def
                decode_float_def Let_def)
        then show ?thesis using c [of "''Unable to read samples from '' @ ?fn"]
          by (simp add: short_read_def)
      qed
    qed
  qed
qed

lemma owner_of_assigned:
  "(case mClip (s\<lparr>mClip := fi_clip fi, mWaveTrack := fi_track fi\<rparr>) of
      Some c \<Rightarrow> Some c
    | None \<Rightarrow> mWaveTrack (s\<lparr>mClip := fi_clip fi, mWaveTrack := fi_track fi\<rparr>)) = owner_of fi"
  by (cases "fi_clip fi") (simp_all add: owner_of_def)

lemma resolve_silence:
  assumes "fi_track fi \<noteq> None" and "owner_of fi = Some r"
      and "fi_path fi = [] \<or> unreadable e s fi"
  shows "\<exists>s'. resolve e fi s = Some (True, s')
            \<and> heap s' = (heap s)[r := (heap s ! r)\<lparr>e_runs := e_runs (heap s ! r) @ [Silence (fi_len fi)]\<rparr>]
            \<and> mUpdateResult s' = mUpdateResult s
            \<and> (fi_path fi = [] \<longrightarrow> msgs s' = msgs s \<and> mErrorMsg s' = mErrorMsg s)
            \<and> (fi_path fi \<noteq> [] \<longrightarrow>
                  (\<exists>w1 w2. msgs s' = msgs s @ [LogWarning w1, LogWarning w2]) \<and> mErrorMsg s' \<noteq> [])"
proof -
  let ?s1 = "s\<lparr>mClip := fi_clip fi, mWaveTrack := fi_track fi\<rparr>"
  have tr: "mWaveTrack ?s1 \<noteq> None" using assms(1) by simp
  have ow: "(case mClip ?s1 of Some c \<Rightarrow> Some c | None \<Rightarrow> mWaveTrack ?s1) = Some r"
    using assms(2) by (simp only: owner_of_assigned)
  have sel: "heap ?s1 = heap s" "msgs ?s1 = msgs s" "mErrorMsg ?s1 = mErrorMsg s"
    "mUpdateResult ?s1 = mUpdateResult s" by simp_all
  show ?thesis
  proof (cases "fi_path fi = []")
    case True
    have "AddSilence (fi_len fi) ?s1 = Some (True, add_run r (Silence (fi_len fi)) ?s1)"
      using tr ow by (rule AddSilence_owned)
    then have "resolve e fi s = Some (True, add_run r (Silence (fi_len fi)) ?s1)"
      using True by (simp add: resolve_def)
    then show ?thesis using True
      by (intro exI [of _ "add_run r (Silence (fi_len fi)) ?s1"]) simp
  next
    case False
    with assms(3) have "unreadable e s fi" by simp
    then have bad: "unreadable e ?s1 fi" by (simp add: unreadable_format [of ?s1 s])
    from AddSamples_unreadable [OF tr ow bad] obtain s' where
      a: "AddSamples e (fi_path fi) (fi_len fi) (fi_origin fi) (fi_channel fi) ?s1 = Some (True, s')"
      and h: "heap s' = (heap ?s1)[r := (heap ?s1 ! r)\<lparr>e_runs := e_runs (heap ?s1 ! r) @ [Silence (fi_len fi)]\<rparr>]"
      and u: "mUpdateResult s' = mUpdateResult ?s1"
      and w: "\<exists>w1 w2. msgs s' = msgs ?s1 @ [LogWarning w1, LogWarning w2]"
      and m: "mErrorMsg s' \<noteq> []"
      by blast
    have "resolve e fi s = Some (True, s')" using a False by (simp add: resolve_def)
    moreover have "heap s' = (heap s)[r := (heap s ! r)\<lparr>e_runs := e_runs (heap s ! r) @ [Silence (fi_len fi)]\<rparr>]"
      using h unfolding sel .
    moreover have "mUpdateResult s' = mUpdateResult s" using u unfolding sel .
    moreover have "\<exists>w1 w2. msgs s' = msgs s @ [LogWarning w1, LogWarning w2]"
      using w unfolding sel .
    ultimately show ?thesis using m False by (intro exI [of _ s']) simp
  qed
qed

text \<open>
  C2, as amended. In the loop over the queued descriptors, let the progress check
  return \<open>Success\<close> and let the descriptor have an owning track (and possibly a clip).
  If its path is empty, or its file cannot be opened or sought, or a decode branch that
  compares the frame count gets fewer frames than requested, then the owner (the clip
  if there is one, else the track) gets exactly one more run, \<open>Silence\<close> of the requested
  length, \<open>mUpdateResult\<close> stays \<open>Success\<close> and the loop goes on with the remaining
  descriptors. With an empty path no warning is recorded; otherwise two warnings are
  logged and \<open>mErrorMsg\<close> is set.
\<close>

theorem unreadable_block_is_silence:
  assumes "Update e k processed (mTotalSamples s) = Success"
      and "fi_track fi \<noteq> None" and "owner_of fi = Some r" and "r < length (heap s)"
      and "fi_path fi = [] \<or> unreadable e s fi"
  shows "\<exists>s'. resolve_files e k processed (fi # fis) s
                 = resolve_files e (Suc k) (processed + fi_len fi) fis s'
            \<and> heap s' = (heap s)[r := (heap s ! r)\<lparr>e_runs := e_runs (heap s ! r) @ [Silence (fi_len fi)]\<rparr>]
            \<and> mUpdateResult s' = Success
            \<and> (fi_path fi = [] \<longrightarrow> msgs s' = msgs s \<and> mErrorMsg s' = mErrorMsg s)
            \<and> (fi_path fi \<noteq> [] \<longrightarrow>
                  (\<exists>w1 w2. msgs s' = msgs s @ [LogWarning w1, LogWarning w2]) \<and> mErrorMsg s' \<noteq> [])"
proof -
  let ?s1 = "s\<lparr>mUpdateResult := Update e k processed (mTotalSamples s)\<rparr>"
  have sel: "heap ?s1 = heap s" "msgs ?s1 = msgs s" "mErrorMsg ?s1 = mErrorMsg s"
    "mUpdateResult ?s1 = Success" using assms(1) by simp_all
  have "fi_path fi = [] \<or> unreadable e ?s1 fi"
    using assms(5) by (simp add: unreadable_format [of ?s1 s])
  from resolve_silence [OF assms(2,3) this] obtain s' where
    r: "resolve e fi ?s1 = Some (True, s')"
    and f: "heap s' = (heap ?s1)[r := (heap ?s1 ! r)\<lparr>e_runs := e_runs (heap ?s1 ! r) @ [Silence (fi_len fi)]\<rparr>]"
       "mUpdateResult s' = mUpdateResult ?s1"
       "fi_path fi = [] \<longrightarrow> msgs s' = msgs ?s1 \<and> mErrorMsg s' = mErrorMsg ?s1"
       "fi_path fi \<noteq> [] \<longrightarrow>
          (\<exists>w1 w2. msgs s' = msgs ?s1 @ [LogWarning w1, LogWarning w2]) \<and> mErrorMsg s' \<noteq> []"
    by blast
  have "resolve_files e k processed (fi # fis) s
          = resolve_files e (Suc k) (processed + fi_len fi) fis s'"
    using sel(4) r by (simp add: Let_def)
  with f [unfolded sel] show ?thesis by blast
qed

theorem unreadable_block_is_silence_witness:
  "map_option (\<lambda>(early, s'). (early, map e_runs (heap s'), length (msgs s'), mUpdateResult s'))
     (resolve_files demo_env 0 0 [gone_block] one_track)
     = Some (False, [[Silence 4]], 2, Success)"
proof -
  have u: "Update demo_env 0 0 (mTotalSamples one_track) = Success" by simp
  have t: "fi_track gone_block \<noteq> None" by (simp add: gone_block_def)
  have ow: "owner_of gone_block = Some 0" by (simp add: owner_of_def gone_block_def)
  have r: "0 < length (heap one_track)" by simp
  have bad: "fi_path gone_block = [] \<or> unreadable demo_env one_track gone_block"
    by (simp add: unreadable_def gone_block_def)
  have path: "fi_path gone_block \<noteq> []" "fi_len gone_block = 4" by (simp_all add: gone_block_def)
  from unreadable_block_is_silence [OF u t ow r bad, of "[]"] path
  show ?thesis by auto
qed

text \<open>
  The claim as stated also promises a warning for a descriptor with an empty path. A
  silent block file has an empty path: importing \<open>silent_doc\<close> succeeds, the track gets
  \<open>Silence 5\<close>, and nothing is logged and no message is kept.
\<close>

theorem silent_block_counterexample:
  "map_option (\<lambda>(r, p', s'). (r, map e_runs (heap s'), msgs s', mErrorMsg s'))
     (Import demo_env silent_doc empty_project fresh)
     = Some (Success, [[Silence 5]], [], [])"
proof -
  have "wellformed silent_doc" by (simp add: silent_doc_def)
  then show ?thesis
    by (simp add: Import_def Parse_def silent_run_demo resolve_def AddSilence_def add_run_def
          isDirty_def Let_def)
qed

section \<open>C3: a time track that is bypassed\<close>

lemma dispatch_timetrack:
  "dispatch e p as (s\<lparr>mParentTag := q, mCurrentTag := ''timetrack''\<rparr>)
     = Some (HandleTimeTrack p (s\<lparr>mParentTag := q, mCurrentTag := ''timetrack''\<rparr>))"
  by (simp add: dispatch_def)

lemma dispatch_envelope:
  "dispatch e p as (s\<lparr>mParentTag := q, mCurrentTag := ''envelope''\<rparr>)
     = HandleEnvelope (s\<lparr>mParentTag := q, mCurrentTag := ''envelope''\<rparr>)"
  by (simp add: dispatch_def)

lemma dispatch_controlpoint:
  "dispatch e p as (s\<lparr>mParentTag := q, mCurrentTag := ''controlpoint''\<rparr>)
     = HandleControlPoint (s\<lparr>mParentTag := q, mCurrentTag := ''controlpoint''\<rparr>)"
  by (simp add: dispatch_def)

lemma has_time_track_tags [simp]:
  "has_time_track p (s\<lparr>mParentTag := q, mCurrentTag := t\<rparr>) = has_time_track p s"
  by (simp add: has_time_track_def is_kind_def [abs_def])

lemma timetrack_bypass:
  assumes "has_time_track p s" and "mUpdateResult s = Success"
  shows "\<exists>s1. HandleXMLTag e p ''timetrack'' as s = Some (True, s1) \<and> bypassed 0 s s1"
  using assms
  by (simp add: HandleXMLTag_def dispatch_timetrack HandleTimeTrack_def push_handler_def
        bypassed_def)

lemma bypassed_top:
  assumes "bypassed d s0 s"
  shows "mHandlers s \<noteq> []" and "n_handler (last (mHandlers s)) = None"
    and "mCurrentTag s = ''timetrack'' \<or> mCurrentTag s = ''envelope''
           \<or> mCurrentTag s = ''controlpoint''"
    and "mUpdateResult s = Success"
proof -
  let ?hs = "mHandlers s" and ?n = "length (mHandlers s0)"
  from assms have len: "length ?hs = ?n + Suc d" by (simp add: bypassed_def)
  then show ne: "?hs \<noteq> []" by auto
  have "last ?hs = last (drop ?n ?hs)" using len by simp
  moreover have "drop ?n ?hs \<noteq> []" using len by simp
  ultimately have mem: "last ?hs \<in> set (drop ?n ?hs)" by (metis last_in_set)
  from assms have all: "list_all (\<lambda>n. n_handler n = None
                        \<and> (n_tag n = ''timetrack'' \<or> n_tag n = ''envelope''
                             \<or> n_tag n = ''controlpoint'')) (drop ?n ?hs)"
    by (simp add: bypassed_def)
  from all mem show "n_handler (last ?hs) = None" by (auto simp add: list_all_iff)
  from all mem assms show "mCurrentTag s = ''timetrack'' \<or> mCurrentTag s = ''envelope''
           \<or> mCurrentTag s = ''controlpoint''"
    by (auto simp add: list_all_iff bypassed_def)
  from assms show "mUpdateResult s = Success" by (simp add: bypassed_def)
qed

lemma bypassed_open:
  assumes "bypassed d s0 s" and "tg = ''envelope'' \<or> tg = ''controlpoint''"
  shows "\<exists>s1. HandleXMLTag e p tg as s = Some (True, s1) \<and> bypassed (Suc d) s0 s1"
proof -
  note top = bypassed_top [OF assms(1)]
  let ?s1 = "s\<lparr>mParentTag := mCurrentTag s, mCurrentTag := tg\<rparr>"
  have d: "dispatch e p as ?s1 = Some (True, None, ?s1)"
    using assms(2) top
    by (auto simp add: dispatch_envelope dispatch_controlpoint HandleEnvelope_def
          HandleControlPoint_def)
  then have h: "HandleXMLTag e p tg as s = Some (True, push_handler None ?s1)"
    using top(4) by (simp add: HandleXMLTag_def)
  have "bypassed (Suc d) s0 (push_handler None ?s1)"
    using assms by (auto simp add: bypassed_def push_handler_def)
  with h show ?thesis by simp
qed

lemma bypassed_close:
  assumes "bypassed (Suc d) s0 s" and "tg = ''envelope'' \<or> tg = ''controlpoint''"
  shows "\<exists>s1. HandleXMLEndTag tg s = Some s1 \<and> bypassed d s0 s1"
proof -
  note top = bypassed_top [OF assms(1)]
  have h: "HandleXMLEndTag tg s = Some (pop_handler s)"
    using assms(2) top by (auto simp add: HandleXMLEndTag_def)
  let ?hs = "mHandlers s" and ?n = "length (mHandlers s0)"
  from assms(1) have len: "length ?hs = ?n + Suc (Suc d)" by (simp add: bypassed_def)
  then have bl2: "length (butlast ?hs) = ?n + Suc d" by simp
  have bl1: "butlast ?hs \<noteq> []" using len by (cases ?hs rule: rev_cases) auto
  note bl = bl1 bl2
  have tk: "take ?n (butlast ?hs) = take ?n ?hs" using len by (simp add: take_butlast)
  have dr: "drop ?n (butlast ?hs) = butlast (drop ?n ?hs)" using len by (simp add: drop_butlast)
  from assms(1) have all: "list_all (\<lambda>n. n_handler n = None
                        \<and> (n_tag n = ''timetrack'' \<or> n_tag n = ''envelope''
                             \<or> n_tag n = ''controlpoint'')) (drop ?n ?hs)"
    by (simp add: bypassed_def)
  then have all': "list_all (\<lambda>n. n_handler n = None
                        \<and> (n_tag n = ''timetrack'' \<or> n_tag n = ''envelope''
                             \<or> n_tag n = ''controlpoint'')) (butlast (drop ?n ?hs))"
    by (auto simp add: list_all_iff dest: in_set_butlastD)
  have "bypassed d s0 (pop_handler s)"
    using assms(1) bl tk dr all' by (simp add: bypassed_def pop_handler_def Let_def)
  with h show ?thesis by simp
qed

lemma bypassed_run:
  "bypassed d s0 s \<Longrightarrow> nested_envelope_events d evs \<Longrightarrow>
     \<exists>s' d'. run_events e p evs s = Some s' \<and> bypassed d' s0 s'"
proof (induction evs arbitrary: d s)
  case Nil
  then show ?case by auto
next
  case (Cons ev evs)
  show ?case
  proof (cases ev)
    case (StartTag tg as)
    with Cons.prems have tg: "tg = ''envelope'' \<or> tg = ''controlpoint''"
      and rest: "nested_envelope_events (Suc d) evs" by simp_all
    from bypassed_open [OF Cons.prems(1) tg] obtain s1 where
      h: "HandleXMLTag e p tg as s = Some (True, s1)" and b: "bypassed (Suc d) s0 s1" by blast
    from Cons.IH [OF b rest] h StartTag show ?thesis by simp
  next
    case (EndTag tg)
    with Cons.prems have tg: "tg = ''envelope'' \<or> tg = ''controlpoint''" and pos: "0 < d"
      and rest: "nested_envelope_events (d - 1) evs" by simp_all
    from pos obtain d0 where d0: "d = Suc d0" by (cases d) simp_all
    from bypassed_close [of d0 s0 s tg] Cons.prems(1) tg d0 obtain s1 where
      h: "HandleXMLEndTag tg s = Some s1" and b: "bypassed d0 s0 s1" by blast
    from Cons.IH [OF b] rest d0 h EndTag show ?thesis by simp
  qed
qed


text \<open>
  C3, as amended. The track list of the host project already holds a Time Track (one
  that the import itself has built is not in that list and does not count), no error
  has happened, and a timetrack tag is opened, followed by any envelope and
  control-point tags that are opened and closed inside it. Then the events run to the end without undefined behaviour, the
  heap and \<open>mTracks\<close> are as before (no entity was created), nothing was passed on to
  any handler object, \<open>mUpdateResult\<close> is still \<open>Success\<close> and \<open>mErrorMsg\<close> unchanged (no
  error), and every frame pushed since has a null handler.
\<close>

theorem bypassed_time_track:
  assumes "has_time_track p s" and "mUpdateResult s = Success"
      and "nested_envelope_events 0 evs"
  shows "\<exists>s'. run_events e p (StartTag ''timetrack'' as # evs) s = Some s'
             \<and> heap s' = heap s \<and> mTracks s' = mTracks s
             \<and> delivered s' = delivered s
             \<and> mUpdateResult s' = Success \<and> mErrorMsg s' = mErrorMsg s
             \<and> take (length (mHandlers s)) (mHandlers s') = mHandlers s
             \<and> list_all (\<lambda>n. n_handler n = None) (drop (length (mHandlers s)) (mHandlers s'))"
proof -
  from timetrack_bypass [OF assms(1,2)] obtain s1 where
    h: "HandleXMLTag e p ''timetrack'' as s = Some (True, s1)" and b: "bypassed 0 s s1" by blast
  from bypassed_run [OF b assms(3)] obtain s' d' where
    r: "run_events e p evs s1 = Some s'" and b': "bypassed d' s s'" by blast
  from b' have "list_all (\<lambda>n. n_handler n = None) (drop (length (mHandlers s)) (mHandlers s'))"
    by (auto simp add: bypassed_def list_all_iff)
  with h r b' show ?thesis by (simp add: bypassed_def)
qed

theorem bypassed_time_track_witness:
  "map_option (\<lambda>s'. (heap s', mTracks s', mUpdateResult s', mErrorMsg s'))
     (run_events demo_env time_project (StartTag ''timetrack'' [] # envelope_events) time_handle)
     = Some ([\<lparr>e_kind = TimeTrack, e_owner = None, e_runs = []\<rparr>], [], Success, [])"
proof -
  have t: "has_time_track time_project time_handle"
    by (simp add: has_time_track_def is_kind_def time_project_def time_handle_def)
  have u: "mUpdateResult time_handle = Success" by (simp add: time_handle_def)
  have n: "nested_envelope_events 0 envelope_events" by (simp add: envelope_events_def)
  from bypassed_time_track [OF t u n, of demo_env "[]"]
  show ?thesis by (auto simp add: time_handle_def)
qed

lemma two_time_tracks_frames:
  "map_option (\<lambda>s1. map n_handler (mHandlers s1))
     (run_events demo_env empty_project (take 6 (events two_time_tracks_doc))
        (constructed a f w c))
     = Some [None, Some (Obj 1), Some (EnvelopeOf 1), Some (PointOf 1)]"
proof -
  have nt: "\<not> has_time_track empty_project s" for s
    by (simp add: has_time_track_def)
  show ?thesis
    by (simp add: two_time_tracks_doc_def HandleXMLTag_def dispatch_def HandleProject_def
          HandleProject_attr_def set_double_def parse_long_def find_data_dir_def hash_files_def
          demo_attrs_def HandleTimeTrack_def nt new_track_def alloc_def HandleEnvelope_def
          HandleControlPoint_def is_kind_def push_handler_def HandleXMLEndTag_def
          pop_handler_def Let_def)
qed

lemma two_time_tracks_import:
  "map_option (\<lambda>(r, p', s'). (r, p_tracks p', map e_kind (heap s'), delivered s'))
     (Import demo_env two_time_tracks_doc empty_project (constructed a f w c))
     = Some (Success, [0, 1], [TimeTrack, TimeTrack],
             [(Obj 0, ''timetrack'', Some []), (Obj 0, ''timetrack'', None),
              (Obj 1, ''timetrack'', Some []), (EnvelopeOf 1, ''envelope'', Some []),
              (PointOf 1, ''controlpoint'', Some []), (PointOf 1, ''controlpoint'', None),
              (EnvelopeOf 1, ''envelope'', None), (Obj 1, ''timetrack'', None)])"
proof -
  have nt: "\<not> has_time_track empty_project s" for s
    by (simp add: has_time_track_def)
  show ?thesis
    by (simp add: Import_def Parse_def isDirty_def two_time_tracks_doc_def HandleXMLTag_def
          dispatch_def HandleProject_def HandleProject_attr_def set_double_def parse_long_def
          find_data_dir_def hash_files_def demo_attrs_def HandleTimeTrack_def nt new_track_def
          alloc_def HandleEnvelope_def HandleControlPoint_def is_kind_def push_handler_def
          HandleXMLEndTag_def pop_handler_def Let_def)
qed

text \<open>
  The claim as stated speaks of a Time Track that already exists. \<open>HandleTimeTrack\<close>
  looks at the track list of the host project only, never at \<open>mTracks\<close>: in
  \<open>two_time_tracks_doc\<close>, imported into a project without tracks, the Time Track that
  the first timetrack tag built exists when the second one is opened, and still a
  second Time Track is created and added to the project, and the envelope and the
  control point under it are passed on to its envelope and to a point of it. While the
  control point is open, the three frames above the root tag all have a handler.
\<close>

theorem second_time_track_counterexample:
  "map_option (\<lambda>(r, p', s'). (r, p_tracks p', map e_kind (heap s'), delivered s'))
     (Import demo_env two_time_tracks_doc empty_project fresh)
     = Some (Success, [0, 1], [TimeTrack, TimeTrack],
             [(Obj 0, ''timetrack'', Some []), (Obj 0, ''timetrack'', None),
              (Obj 1, ''timetrack'', Some []), (EnvelopeOf 1, ''envelope'', Some []),
              (PointOf 1, ''controlpoint'', Some []), (PointOf 1, ''controlpoint'', None),
              (EnvelopeOf 1, ''envelope'', None), (Obj 1, ''timetrack'', None)])
   \<and> map_option (\<lambda>s1. map n_handler (mHandlers s1))
        (run_events demo_env empty_project (take 6 (events two_time_tracks_doc)) fresh)
       = Some [None, Some (Obj 1), Some (EnvelopeOf 1), Some (PointOf 1)]"
  using two_time_tracks_import [of fresh_attrs floatSample None None]
    two_time_tracks_frames [of fresh_attrs floatSample None None]
  by (simp add: fresh_constructed [symmetric])

section \<open>C4: tags the dispatcher refuses\<close>

lemma Import_fatal_at:
  assumes ev: "events doc = pre @ StartTag tg as # post"
      and pre: "run_events e p pre (s\<lparr>mTotalSamples := 0, mUpdateResult := Success\<rparr>) = Some s1"
      and tag: "HandleXMLTag e p tg as s1 = Some (False, s2)"
  shows "mUpdateResult s2 = Failed \<and> mErrorMsg s2 \<noteq> []
       \<and> (\<exists>s'. Import e doc p s = Some (Failed, p, s'))"
proof -
  let ?s0 = "s\<lparr>mTotalSamples := 0, mUpdateResult := Success\<rparr>"
  have "consistent ?s0" by (simp add: consistent_def)
  from run_events_consistent [OF this pre] have "consistent s1" .
  from HandleXMLTag_consistent [OF this tag]
  have f: "mUpdateResult s2 = Failed" "mErrorMsg s2 \<noteq> []" by simp_all
  then have "run_events e p post s2 = Some s2" by (simp add: run_events_failed)
  then have "run_events e p (events doc) ?s0 = Some s2"
    using ev pre tag by (simp add: run_events_append)
  from Import_after_fatal [OF this f] f show ?thesis by simp
qed


lemma dispatch_unknown:
  "tg \<notin> set vocabulary \<Longrightarrow>
   dispatch e p as (s\<lparr>mParentTag := q, mCurrentTag := tg\<rparr>)
     = Some (False, None, s\<lparr>mParentTag := q, mCurrentTag := tg\<rparr>)"
  by (simp add: dispatch_def vocabulary_def)

lemma dispatch_label:
  "q \<noteq> ''labeltrack'' \<Longrightarrow>
   dispatch e p as (s\<lparr>mParentTag := q, mCurrentTag := ''label''\<rparr>)
     = Some (False, None, s\<lparr>mParentTag := q, mCurrentTag := ''label''\<rparr>)"
  by (simp add: dispatch_def HandleLabel_def)

lemma dispatch_tag:
  "q \<noteq> ''tags'' \<Longrightarrow>
   dispatch e p as (s\<lparr>mParentTag := q, mCurrentTag := ''tag''\<rparr>)
     = Some (False, None, s\<lparr>mParentTag := q, mCurrentTag := ''tag''\<rparr>)"
  by (simp add: dispatch_def HandleTag_def)

lemma Import_after_fatal_tags:
  assumes "run_events e p (events doc) (s\<lparr>mTotalSamples := 0, mUpdateResult := Success\<rparr>) = Some s1"
      and "mUpdateResult s1 = Failed" and "mErrorMsg s1 \<noteq> []"
  shows "\<exists>s'. Import e doc p s = Some (Failed, p, s') \<and> mTags s' = mTags s1"
  using assms by (simp add: Import_def Parse_def Let_def)

lemma Import_refused_at:
  assumes ev: "events doc = pre @ StartTag tg as # post"
      and pre: "run_events e p pre (s\<lparr>mTotalSamples := 0, mUpdateResult := Success\<rparr>) = Some s1"
      and tag: "HandleXMLTag e p tg as s1 = Some (False, s2)"
  shows "mUpdateResult s2 = Failed \<and> mErrorMsg s2 \<noteq> []
       \<and> (\<exists>s'. Import e doc p s = Some (Failed, p, s') \<and> mTags s' = mTags s2)"
proof -
  let ?s0 = "s\<lparr>mTotalSamples := 0, mUpdateResult := Success\<rparr>"
  have "consistent ?s0" by (simp add: consistent_def)
  from run_events_consistent [OF this pre] have "consistent s1" .
  from HandleXMLTag_consistent [OF this tag]
  have f: "mUpdateResult s2 = Failed" "mErrorMsg s2 \<noteq> []" by simp_all
  then have "run_events e p post s2 = Some s2" by (simp add: run_events_failed)
  then have "run_events e p (events doc) ?s0 = Some s2"
    using ev pre tag by (simp add: run_events_append)
  from Import_after_fatal_tags [OF this f] f show ?thesis by simp
qed

lemma HandleXMLTag_refused_tags:
  assumes "tg \<notin> set vocabulary \<or> (tg = ''label'' \<and> mCurrentTag s \<noteq> ''labeltrack'')
             \<or> (tg = ''tag'' \<and> mCurrentTag s \<noteq> ''tags'')"
  shows "\<exists>s'. HandleXMLTag e p tg as s = Some (False, s') \<and> mTags s' = mTags s"
proof (cases "mUpdateResult s = Success")
  case False
  then show ?thesis by (simp add: HandleXMLTag_def)
next
  case True
  let ?s1 = "s\<lparr>mParentTag := mCurrentTag s, mCurrentTag := tg\<rparr>"
  have "dispatch e p as ?s1 = Some (False, None, ?s1)"
    using assms by (auto simp add: dispatch_unknown dispatch_label dispatch_tag)
  then show ?thesis using True by (simp add: HandleXMLTag_def SetError_def)
qed

lemma tags_run:
  "map_option (\<lambda>s1. (mTags s1, mCurrentTag s1))
     (run_events demo_env empty_project (take 5 (events tagged_unknown_doc)) fresh)
     = Some ([(''TITLE'', ''Song'')], ''project'')"
  by (simp add: tagged_unknown_doc_def HandleXMLTag_def dispatch_def HandleProject_def
        HandleProject_attr_def set_double_def parse_long_def find_data_dir_def hash_files_def
        demo_attrs_def HandleTags_def HandleTag_def push_handler_def HandleXMLEndTag_def
        pop_handler_def Let_def)

text \<open>
  C4, as amended. A document is parsed up to a start tag, without undefined
  behaviour. If the tag name is none of the names the dispatcher knows, or it is
  \<open>label\<close> and the enclosing tag is not \<open>labeltrack\<close>, or it is \<open>tag\<close> and the enclosing
  tag is not \<open>tags\<close>, then the dispatcher returns false with \<open>mUpdateResult = Failed\<close>
  and an error message, and \<open>Import\<close> returns \<open>Failed\<close> with the project as it was: no
  track is added and no setter is called. The metadata that earlier tags of the
  document wrote to the caller's \<open>Tags\<close> object is not taken back: \<open>mTags\<close> is at the end
  what it was when the refused tag was reached. A \<open>controlpoint\<close> whose enclosing tag is
  not \<open>envelope\<close> is accepted instead: the dispatcher returns true and pushes a frame
  with a null handler.
\<close>

theorem context_rule_fatal:
  assumes "events doc = pre @ StartTag tg as # post"
      and "run_events e p pre (s\<lparr>mTotalSamples := 0, mUpdateResult := Success\<rparr>) = Some s1"
  shows "(tg \<notin> set vocabulary \<or> (tg = ''label'' \<and> mCurrentTag s1 \<noteq> ''labeltrack'')
             \<or> (tg = ''tag'' \<and> mCurrentTag s1 \<noteq> ''tags'') \<longrightarrow>
          (\<exists>s2. HandleXMLTag e p tg as s1 = Some (False, s2)
                \<and> mUpdateResult s2 = Failed \<and> mErrorMsg s2 \<noteq> [])
          \<and> (\<exists>s'. Import e doc p s = Some (Failed, p, s') \<and> mTags s' = mTags s1))
       \<and> (tg = ''controlpoint'' \<and> mCurrentTag s1 \<noteq> ''envelope'' \<and> mHandlers s1 \<noteq> []
            \<and> mUpdateResult s1 = Success \<longrightarrow>
          HandleXMLTag e p tg as s1
            = Some (True, push_handler None (s1\<lparr>mParentTag := mCurrentTag s1, mCurrentTag := tg\<rparr>)))"
proof (intro conjI impI)
  assume bad: "tg \<notin> set vocabulary \<or> (tg = ''label'' \<and> mCurrentTag s1 \<noteq> ''labeltrack'')
             \<or> (tg = ''tag'' \<and> mCurrentTag s1 \<noteq> ''tags'')"
  from HandleXMLTag_refused_tags [OF this] obtain s2 where
    tag: "HandleXMLTag e p tg as s1 = Some (False, s2)" and same: "mTags s2 = mTags s1"
    by blast
  from Import_refused_at [OF assms tag] tag same
  show "\<exists>s2. HandleXMLTag e p tg as s1 = Some (False, s2)
              \<and> mUpdateResult s2 = Failed \<and> mErrorMsg s2 \<noteq> []"
    and "\<exists>s'. Import e doc p s = Some (Failed, p, s') \<and> mTags s' = mTags s1" by simp_all
next
  assume "tg = ''controlpoint'' \<and> mCurrentTag s1 \<noteq> ''envelope'' \<and> mHandlers s1 \<noteq> []
            \<and> mUpdateResult s1 = Success"
  then show "HandleXMLTag e p tg as s1
            = Some (True, push_handler None (s1\<lparr>mParentTag := mCurrentTag s1, mCurrentTag := tg\<rparr>))"
    by (simp add: HandleXMLTag_def dispatch_controlpoint HandleControlPoint_def)
qed

theorem context_rule_fatal_witness:
  "map_option (\<lambda>(r, p', s'). (r, p', mTags s'))
     (Import demo_env tagged_unknown_doc empty_project fresh)
     = Some (Failed, empty_project, [(''TITLE'', ''Song'')])
   \<and> map_option fst (HandleXMLTag demo_env empty_project ''controlpoint'' [] view_opened)
       = Some True"
proof -
  have ev: "events tagged_unknown_doc
              = take 5 (events tagged_unknown_doc) @ StartTag ''effect'' []
                  # [EndTag ''effect'', EndTag ''project'']"
    by (simp add: tagged_unknown_doc_def)
  from tags_run obtain s1 where
    pre: "run_events demo_env empty_project (take 5 (events tagged_unknown_doc))
            (fresh\<lparr>mTotalSamples := 0, mUpdateResult := Success\<rparr>) = Some s1"
    and tags: "mTags s1 = [(''TITLE'', ''Song'')]"
    by auto
  have unknown: "''effect'' \<notin> set vocabulary" by (simp add: vocabulary_def)
  have ev2: "events stray_point_doc
              = [StartTag ''project'' demo_attrs] @ StartTag ''controlpoint'' []
                  # [EndTag ''controlpoint'', EndTag ''project'']"
    by (simp add: stray_point_doc_def)
  have pre2: "run_events demo_env empty_project [StartTag ''project'' demo_attrs]
               (fresh\<lparr>mTotalSamples := 0, mUpdateResult := Success\<rparr>) = Some view_opened"
    by (simp add: open_project)
  from context_rule_fatal [OF ev pre] unknown tags context_rule_fatal [OF ev2 pre2]
  show ?thesis by auto
qed

text \<open>
  The claim as stated makes a control point outside an envelope fatal, and lets a
  failed import commit no partial state. In \<open>stray_point_doc\<close> a control point sits
  directly under the root tag, and the import returns \<open>Success\<close>. In
  \<open>tagged_unknown_doc\<close> a metadata tag comes before a tag the dispatcher refuses: the
  import returns \<open>Failed\<close> and leaves the project alone, but the \<open>SetTag\<close> call on the
  caller's \<open>Tags\<close> object has been made and stays.
\<close>

lemma stray_point_import:
  "map_option fst (Import demo_env stray_point_doc empty_project (constructed a f w c))
     = Some Success"
  by (simp add: Import_def Parse_def isDirty_def stray_point_doc_def HandleXMLTag_def
        dispatch_def HandleProject_def HandleProject_attr_def set_double_def parse_long_def
        find_data_dir_def hash_files_def demo_attrs_def HandleControlPoint_def push_handler_def
        HandleXMLEndTag_def pop_handler_def Let_def)

lemma tagged_unknown_import:
  "map_option (\<lambda>(r, p', s'). (r, p', mTags s'))
     (Import demo_env tagged_unknown_doc empty_project (constructed a f w c))
     = Some (Failed, empty_project, [(''TITLE'', ''Song'')])"
  by (simp add: Import_def Parse_def tagged_unknown_doc_def HandleXMLTag_def
        dispatch_def HandleProject_def HandleProject_attr_def set_double_def parse_long_def
        find_data_dir_def hash_files_def demo_attrs_def HandleTags_def HandleTag_def
        SetError_def push_handler_def HandleXMLEndTag_def pop_handler_def Let_def)

theorem refused_tag_counterexample:
  "map_option fst (Import demo_env stray_point_doc empty_project fresh) = Some Success
   \<and> map_option (\<lambda>(r, p', s'). (r, p', mTags s'))
        (Import demo_env tagged_unknown_doc empty_project fresh)
       = Some (Failed, empty_project, [(''TITLE'', ''Song'')])"
  using stray_point_import [of fresh_attrs floatSample None None]
    tagged_unknown_import [of fresh_attrs floatSample None None]
  by (simp add: fresh_constructed [symmetric])


section \<open>C5: the root tag needs its three attributes\<close>

text \<open>
  C5. The first event of the document is the root tag (\<open>project\<close> or
  \<open>audacityproject\<close>), its attribute names are distinct, as in every well-formed tag,
  and at least one of \<open>version\<close>, \<open>audacityversion\<close>, \<open>projname\<close> is not among them. Then
  the dispatcher returns false for the tag and \<open>Import\<close> returns \<open>Failed\<close> with the
  project as it was, whatever the other attributes are.
\<close>

theorem project_requires_three:
  assumes "distinct (map fst as)" and "\<not> set required_attrs \<subseteq> set (map fst as)"
      and "tg = ''project'' \<or> tg = ''audacityproject''"
      and "events doc = StartTag tg as # rest"
  shows "(\<exists>s2. HandleXMLTag e p tg as (s\<lparr>mTotalSamples := 0, mUpdateResult := Success\<rparr>)
                 = Some (False, s2) \<and> mUpdateResult s2 = Failed)
       \<and> (\<exists>s'. Import e doc p s = Some (Failed, p, s'))"
proof -
  let ?s0 = "s\<lparr>mTotalSamples := 0, mUpdateResult := Success\<rparr>"
  have few: "length (filter (\<lambda>a. a \<in> set required_attrs) (map fst as)) < 3"
    using assms(1,2) by (rule few_required)
  have "mUpdateResult ?s0 = Success" by simp
  from HandleXMLTag_project_rejects [OF few assms(3) this]
  obtain s2 where tag: "HandleXMLTag e p tg as ?s0 = Some (False, s2)"
    and failed: "mUpdateResult s2 = Failed" by blast
  have ev: "events doc = [] @ StartTag tg as # rest" using assms(4) by simp
  have pre: "run_events e p [] ?s0 = Some ?s0" by simp
  from Import_fatal_at [OF ev pre tag] tag failed show ?thesis by simp
qed


theorem project_requires_three_witness:
  "map_option fst (Import demo_env two_attrs_doc empty_project fresh) = Some Failed"
proof -
  let ?as = "[(''version'', ''1.3.0''), (''audacityversion'', ''2.4.2''), (''rate'', ''44100'')]"
  have d: "distinct (map fst ?as)" by simp
  have r: "\<not> set required_attrs \<subseteq> set (map fst ?as)" by (simp add: required_attrs_def)
  have t: "''project'' = ''project'' \<or> ''project'' = ''audacityproject''" by simp
  have ev: "events two_attrs_doc = StartTag ''project'' ?as # [EndTag ''project'']"
    by (simp add: two_attrs_doc_def)
  from project_requires_three [OF d r t ev, of demo_env empty_project fresh]
  show ?thesis by auto
qed

section \<open>C6: the bounds of maxsamples\<close>

lemma HandleSequence_attr_maxsamples:
  assumes "parse_longlong e v = Some n"
  shows "HandleSequence_attr e ''maxsamples'' v s
           = (if 1024 \<le> n \<and> n \<le> 67108864 then (True, s)
              else SetError ''Invalid sequence maxsamples attribute.'' s)"
  using assms by (auto simp add: HandleSequence_attr_def)

lemma HandleSequence_loop_skip:
  assumes "parse_longlong e v = Some n" and "1024 \<le> n" and "n \<le> 67108864"
  shows "HandleSequence_loop e (pre @ (''maxsamples'', v) # rest) s
           = HandleSequence_loop e (pre @ rest) s"
proof (induction pre arbitrary: s)
  case Nil
  then show ?case using assms by (simp add: HandleSequence_attr_maxsamples)
next
  case (Cons a pre)
  obtain x w where a: "a = (x, w)" by (cases a)
  obtain ok s1 where st: "HandleSequence_attr e x w s = (ok, s1)"
    by (cases "HandleSequence_attr e x w s")
  show ?case using Cons.IH [of s1] a st by (cases ok) simp_all
qed

lemma HandleSequence_loop_bad:
  assumes "parse_longlong e v = Some n" and "n < 1024 \<or> 67108864 < n"
  shows "fst (HandleSequence_loop e (pre @ (''maxsamples'', v) # rest) s) = False"
proof (induction pre arbitrary: s)
  case Nil
  then show ?case using assms by (auto simp add: HandleSequence_attr_maxsamples SetError_def)
next
  case (Cons a pre)
  obtain x w where a: "a = (x, w)" by (cases a)
  obtain ok s1 where st: "HandleSequence_attr e x w s = (ok, s1)"
    by (cases "HandleSequence_attr e x w s")
  show ?case using Cons.IH [of s1] a st by (cases ok) simp_all
qed

lemma HandleSequence_alt:
  "HandleSequence e as s =
     (if mHandlers s = [] then None
      else Some (fst (HandleSequence_loop e as s), None, snd (HandleSequence_loop e as s)))"
  by (simp add: HandleSequence_def split_beta)

lemma dispatch_sequence:
  "dispatch e p as (s\<lparr>mParentTag := q, mCurrentTag := ''sequence''\<rparr>)
     = HandleSequence e as (s\<lparr>mParentTag := q, mCurrentTag := ''sequence''\<rparr>)"
  by (simp add: dispatch_def)

lemma HandleXMLTag_sequence:
  assumes "mHandlers s \<noteq> []" and "mUpdateResult s = Success"
  shows "HandleXMLTag e p ''sequence'' as s =
           (let s1 = s\<lparr>mParentTag := mCurrentTag s, mCurrentTag := ''sequence''\<rparr>;
                r = HandleSequence_loop e as s1
            in if fst r then Some (True, push_handler None (snd r))
               else Some (SetError ''Internal error in importer...tag not recognized'' (snd r)))"
  using assms by (simp add: HandleXMLTag_def dispatch_sequence HandleSequence_alt Let_def)

text \<open>
  C6. A sequence tag is being opened (some tag is already open, no error so far) and
  one of its attributes, at any position, is \<open>maxsamples\<close> with a value that
  \<open>IsGoodInt64\<close> and \<open>ToLongLong\<close> read as the non-negative number \<open>n\<close>. If \<open>n\<close> lies in
  [1024, 67108864] the attribute is accepted: the tag is handled exactly as it is
  without the attribute, so it is accepted if and only if the other attributes are. If
  \<open>n\<close> is below 1024 or above 67108864 the dispatcher returns false with
  \<open>mUpdateResult = Failed\<close> and an error message: a fatal error.
\<close>

theorem maxsamples_bounds:
  assumes "parse_longlong e v = Some n" and "0 \<le> n"
      and "mHandlers s \<noteq> []" and "mUpdateResult s = Success"
  shows "(1024 \<le> n \<and> n \<le> 67108864 \<longrightarrow>
            HandleXMLTag e p ''sequence'' (pre @ (''maxsamples'', v) # rest) s
              = HandleXMLTag e p ''sequence'' (pre @ rest) s)
       \<and> (n < 1024 \<or> 67108864 < n \<longrightarrow>
            (\<exists>s'. HandleXMLTag e p ''sequence'' (pre @ (''maxsamples'', v) # rest) s
                     = Some (False, s')
                  \<and> mUpdateResult s' = Failed \<and> mErrorMsg s' \<noteq> []))"
proof (intro conjI impI)
  assume "1024 \<le> n \<and> n \<le> 67108864"
  then show "HandleXMLTag e p ''sequence'' (pre @ (''maxsamples'', v) # rest) s
               = HandleXMLTag e p ''sequence'' (pre @ rest) s"
    using assms(1) by (simp add: HandleXMLTag_sequence [OF assms(3,4)] HandleSequence_loop_skip)
next
  assume bad: "n < 1024 \<or> 67108864 < n"
  let ?s1 = "s\<lparr>mParentTag := mCurrentTag s, mCurrentTag := ''sequence''\<rparr>"
  let ?r = "HandleSequence_loop e (pre @ (''maxsamples'', v) # rest) ?s1"
  have "fst ?r = False" using assms(1) bad by (rule HandleSequence_loop_bad)
  then have "HandleXMLTag e p ''sequence'' (pre @ (''maxsamples'', v) # rest) s
          = Some (SetError ''Internal error in importer...tag not recognized'' (snd ?r))"
    by (simp add: HandleXMLTag_sequence [OF assms(3,4)] Let_def)
  then show "\<exists>s'. HandleXMLTag e p ''sequence'' (pre @ (''maxsamples'', v) # rest) s
                     = Some (False, s')
                  \<and> mUpdateResult s' = Failed \<and> mErrorMsg s' \<noteq> []"
    by (simp add: SetError_def)
qed

lemma demo_longlong:
  "parse_longlong demo_env ''1023'' = Some 1023"
  "parse_longlong demo_env ''1024'' = Some 1024"
  "parse_longlong demo_env ''67108864'' = Some 67108864"
  "parse_longlong demo_env ''67108865'' = Some 67108865"
  by (simp_all add: parse_longlong_def demo_env_def in_range_def decimal_def digit_def)

theorem maxsamples_bounds_witness:
  "map_option fst (HandleXMLTag demo_env empty_project ''sequence''
                     [(''maxsamples'', ''1023'')] inside_clip) = Some False
 \<and> map_option fst (HandleXMLTag demo_env empty_project ''sequence''
                     [(''maxsamples'', ''1024'')] inside_clip) = Some True
 \<and> map_option fst (HandleXMLTag demo_env empty_project ''sequence''
                     [(''maxsamples'', ''67108864'')] inside_clip) = Some True
 \<and> map_option fst (HandleXMLTag demo_env empty_project ''sequence''
                     [(''maxsamples'', ''67108865'')] inside_clip) = Some False"
proof -
  have st: "mHandlers inside_clip \<noteq> []" "mUpdateResult inside_clip = Success"
    by (simp_all add: inside_clip_def fresh_def)
  have none: "map_option fst (HandleXMLTag demo_env empty_project ''sequence'' [] inside_clip)
                = Some True"
    by (simp add: HandleXMLTag_def dispatch_def HandleSequence_def inside_clip_def fresh_def)
  show ?thesis
    using maxsamples_bounds [OF demo_longlong(1) _ st, of empty_project "[]" "[]"]
          maxsamples_bounds [OF demo_longlong(2) _ st, of empty_project "[]" "[]"]
          maxsamples_bounds [OF demo_longlong(3) _ st, of empty_project "[]" "[]"]
          maxsamples_bounds [OF demo_longlong(4) _ st, of empty_project "[]" "[]"]
          none
    by auto
qed

section \<open>C7: block files without a length\<close>

lemma len_is_not_filename [simp]: "\<not> wxStricmp_eq ''len'' ''filename''"
  by (simp add: wxStricmp_eq_def)

lemma HandleSimpleBlockFile_loop_len:
  "(''len'', v) \<in> set as \<Longrightarrow> parse_longlong e v = Some n \<Longrightarrow> n \<le> 0 \<Longrightarrow>
     fst (HandleSimpleBlockFile_loop e as fn len s) = False"
proof (induction e as fn len s rule: HandleSimpleBlockFile_loop.induct)
  case (1 e filename len s)
  then show ?case by simp
next
  case (2 e attr v' rest filename len s)
  show ?case
  proof (cases "(attr, v') = (''len'', v)")
    case True
    then show ?thesis using "2.prems" by simp
  next
    case False
    with "2.prems" have mem: "(''len'', v) \<in> set rest" by auto
    show ?thesis
      using "2.IH" mem "2.prems"(2,3)
      by (simp split: option.splits)
  qed
qed

lemma HandleSilentBlockFile_loop_len:
  "(''len'', v) \<in> set as \<Longrightarrow> parse_longlong e v = Some n \<Longrightarrow> n \<le> 0 \<Longrightarrow>
     fst (HandleSilentBlockFile_loop e as len s) = False"
proof (induction e as len s rule: HandleSilentBlockFile_loop.induct)
  case (1 e len s)
  then show ?case by simp
next
  case (2 e attr v' rest len s)
  show ?case
  proof (cases "(attr, v') = (''len'', v)")
    case True
    then show ?thesis using "2.prems" by simp
  next
    case False
    with "2.prems" have mem: "(''len'', v) \<in> set rest" by auto
    show ?thesis
      using "2.IH" mem "2.prems"(2,3)
      by (simp split: option.splits)
  qed
qed

text \<open>
  A \<open>simpleblockfile\<close> or \<open>silentblockfile\<close> tag that carries a \<open>len\<close> attribute, at any
  position, whose value reads as a number that is zero or negative is refused: the
  dispatcher returns false with \<open>mUpdateResult = Failed\<close> and an error message, and no
  descriptor is queued.
\<close>

theorem zero_len_is_fatal:
  assumes "(''len'', v) \<in> set as" and "parse_longlong e v = Some n" and "n \<le> 0"
      and "tg = ''simpleblockfile'' \<or> tg = ''silentblockfile''"
      and "mUpdateResult s = Success"
  shows "\<exists>s'. HandleXMLTag e p tg as s = Some (False, s')
             \<and> mUpdateResult s' = Failed \<and> mErrorMsg s' \<noteq> [] \<and> mFiles s' = mFiles s"
proof -
  let ?s1 = "s\<lparr>mParentTag := mCurrentTag s, mCurrentTag := tg\<rparr>"
  have keep1: "mFiles (snd (snd (snd (HandleSimpleBlockFile_loop e as fn len s0)))) = mFiles s0"
    for fn len s0
    by (induction e as fn len s0 rule: HandleSimpleBlockFile_loop.induct)
       (simp_all add: SetError_def SetWarning_def split: option.splits)
  have keep2: "mFiles (snd (snd (HandleSilentBlockFile_loop e as len s0))) = mFiles s0"
    for len s0
    by (induction e as len s0 rule: HandleSilentBlockFile_loop.induct)
       (simp_all add: SetError_def split: option.splits)
  from assms(4) show ?thesis
  proof
    assume tg: "tg = ''simpleblockfile''"
    obtain ok fn len s2 where l: "HandleSimpleBlockFile_loop e as [] 0 ?s1 = (ok, fn, len, s2)"
      by (cases "HandleSimpleBlockFile_loop e as [] 0 ?s1")
    have "ok = False" using HandleSimpleBlockFile_loop_len [OF assms(1-3), of "[]" 0 ?s1] l by simp
    moreover have "mFiles s2 = mFiles s" using keep1 [of "[]" 0 ?s1] l by simp
    ultimately show ?thesis using l tg assms(5)
      by (simp add: HandleXMLTag_def dispatch_def HandleSimpleBlockFile_def SetError_def)
  next
    assume tg: "tg = ''silentblockfile''"
    obtain ok len s2 where l: "HandleSilentBlockFile_loop e as 0 ?s1 = (ok, len, s2)"
      by (cases "HandleSilentBlockFile_loop e as 0 ?s1")
    have "ok = False" using HandleSilentBlockFile_loop_len [OF assms(1-3), of 0 ?s1] l by simp
    moreover have "mFiles s2 = mFiles s" using keep2 [of 0 ?s1] l by simp
    ultimately show ?thesis using l tg assms(5)
      by (simp add: HandleXMLTag_def dispatch_def HandleSilentBlockFile_def SetError_def)
  qed
qed

lemma decimal_0 [simp]: "decimal ''0'' = Some 0"
  by (simp add: decimal_def digit_def)

theorem zero_len_is_fatal_witness:
  "map_option (\<lambda>(ok, s'). (ok, mUpdateResult s', mFiles s'))
     (HandleXMLTag demo_env empty_project ''silentblockfile'' [(''len'', ''0'')] one_track)
     = Some (False, Failed, [])"
proof -
  have m: "(''len'', ''0'') \<in> set [(''len'', ''0'')]" by simp
  have p: "parse_longlong demo_env ''0'' = Some 0"
    by (simp add: parse_longlong_def in_range_def)
  have t: "''silentblockfile'' = ''simpleblockfile'' \<or> ''silentblockfile'' = ''silentblockfile''"
    by simp
  have u: "mUpdateResult one_track = Success" by simp
  from zero_len_is_fatal [OF m p _ t u, of empty_project] show ?thesis by auto
qed

text \<open>
  C7. The claim says that every queued descriptor has a strictly positive length. A
  \<open>simpleblockfile\<close> tag that has no \<open>len\<close> attribute never enters the branch that
  checks the length: the tag is accepted without an error and a descriptor of length 0
  is queued.
\<close>

theorem block_without_len_is_queued:
  "map_option (\<lambda>(ok, s'). (ok, mFiles s', mUpdateResult s', mErrorMsg s'))
     (HandleXMLTag demo_env empty_project ''simpleblockfile''
        [(''filename'', ''e0000001.au'')] one_track)
     = Some (True,
             [\<lparr>fi_track = Some 0, fi_clip = None,
               fi_path = ''/home/song_data/e00/d00/e0000001.au'', fi_len = 0,
               fi_origin = 0, fi_channel = 0\<rparr>],
             Success, [])"
  by (simp add: HandleXMLTag_def dispatch_def HandleSimpleBlockFile_def wxStricmp_eq_def
        tolower_def AddFile_def push_handler_def)

section \<open>C8: the decode branches on a short read\<close>

lemma deinterleave_mono:
  assumes "length tmp = n"
  shows "deinterleave tmp 1 0 n = Some tmp"
proof -
  have "map (\<lambda>i. tmp ! nat (1 * int i + 0)) [0 ..< n] = map ((!) tmp) [0 ..< length tmp]"
    using assms by simp
  then have "map (\<lambda>i. tmp ! nat (1 * int i + 0)) [0 ..< n] = tmp"
    by (simp only: map_nth)
  moreover have "list_all (\<lambda>i. 0 \<le> 1 * int i + 0 \<and> 1 * int i + 0 < int (length tmp)) [0 ..< n]"
    using assms by (simp add: list_all_iff)
  ultimately show ?thesis by (simp add: deinterleave_def)
qed

lemma length_items_mono: "channels f = 1 \<Longrightarrow> length (items f rd pos n) = n"
  by (simp add: items_def)

text \<open>
  Where the read delivers every frame that was asked for, the direct 16-bit branch
  with channel 0 of a single-channel file does exactly what the single-channel 16-bit
  branch does.
\<close>

theorem mono16_direct16_agree:
  assumes "channels f = 1" and "frames_read f pos (nat len) = nat len"
  shows "decode_direct16 e f fn len 0 pos s = decode_mono16 e f fn len pos s"
  using assms deinterleave_mono [OF length_items_mono [OF assms(1)], of "as_short f" pos "nat len"]
  by (simp add: decode_direct16_def decode_mono16_def Let_def)

theorem mono16_direct16_agree_witness:
  "decode_direct16 demo_env demo_file ''take.au'' 2 0 0 one_track
     = decode_mono16 demo_env demo_file ''take.au'' 2 0 one_track"
proof -
  have c: "channels demo_file = 1" by simp
  have f: "frames_read demo_file 0 (nat 2) = nat 2" by (simp add: frames_read_def)
  from mono16_direct16_agree [OF c f] show ?thesis .
qed

text \<open>
  C8. The claim says that the branches produce equivalent output for the same input.
  The demo file holds two frames and three are requested: the single-channel 16-bit
  branch appends three samples, the last one memory the read never wrote, and logs
  nothing; the direct 16-bit branch on the same file and request logs two warnings and
  inserts silence of three samples.
\<close>

theorem short_read_paths_differ:
  "map_option (\<lambda>(ok, s'). (e_runs (heap s' ! 0), length (msgs s')))
     (decode_mono16 demo_env demo_file ''take.au'' 3 0 one_track)
     = Some ([Block int16Sample [S16 7, S16 9, S16 (- 1)]], 0)
   \<and> map_option (\<lambda>(ok, s'). (e_runs (heap s' ! 0), length (msgs s')))
        (decode_direct16 demo_env demo_file ''take.au'' 3 0 0 one_track)
       = Some ([Silence 3], 2)"
proof -
  have fr: "frames_read demo_file 0 3 = 2" by (simp add: frames_read_def)
  have it: "items demo_file (as_short demo_file) 0 2 = [7, 9]"
    by (simp add: items_def upt_rec)
  have sb: "SampleBuffer demo_env 3 = [S16 (- 1), S16 (- 1), S16 (- 1)]"
    by (simp add: SampleBuffer_def upt_rec)
  have a: "decode_mono16 demo_env demo_file ''take.au'' 3 0 one_track
             = Some (True, add_run 0 (Block int16Sample [S16 7, S16 9, S16 (- 1)]) one_track)"
    by (simp add: decode_mono16_def fr it sb write_buf_def append_samples_def)
  have b: "decode_direct16 demo_env demo_file ''take.au'' 3 0 0 one_track
             = short_read ''take.au'' 3 3 one_track"
    by (simp add: decode_direct16_def fr)
  show ?thesis
    by (simp add: a b short_read_def cleanup_def AddSilence_def)
qed

section \<open>C9: the view state of the project\<close>

lemma apply_attrs_present: "apply_attrs e a = present_settings e a"
  by (simp add: apply_attrs_def present_settings_def settings_in_order_def)


text \<open>
  C9. For every import that returns: if the project was dirty (\<open>GetDirty()\<close>), or
  already had tracks (the source's \<open>isDirty\<close> is true in both cases), or the import does
  not return \<open>Success\<close>, no setter is called. Otherwise the calls made are exactly the
  setters of the fields whose present flag is set, each with the stored value, in the
  order rate, snap-to, selection format, time format, frequency format, bandwidth
  format, vertical position, horizontal position, zoom, selection bounds.
\<close>

theorem import_view_state:
  assumes "Import e doc p s = Some (r, p', s')"
  shows "(p_dirty p \<longrightarrow> p_settings p' = p_settings p)
       \<and> (p_tracks p \<noteq> [] \<longrightarrow> p_settings p' = p_settings p)
       \<and> (r \<noteq> Success \<longrightarrow> p_settings p' = p_settings p)
       \<and> (\<not> isDirty p \<and> r = Success \<longrightarrow>
            p_settings p' = p_settings p @ present_settings e (mProjectAttrs s'))"
  using Import_outcome [OF assms]
  by (cases "r = Success") (auto simp add: isDirty_def apply_attrs_present)

theorem import_view_state_witness:
  "\<not> isDirty empty_project
   \<and> map_option (\<lambda>(r, p', s'). (r, p_settings p'))
        (Import demo_env view_doc empty_project fresh)
       = Some (Success, [SetRate 44100, AS_SetSnapTo True, assign_vpos 7])
   \<and> map_option (\<lambda>(r, p', s'). p_settings p')
        (Import demo_env view_doc (empty_project\<lparr>p_dirty := True\<rparr>) fresh)
       = Some []"
proof -
  have clean: "\<not> isDirty empty_project" by (simp add: isDirty_def)
  have ps: "present_settings demo_env view_attrs
              = [SetRate 44100, AS_SetSnapTo True, assign_vpos 7]"
    by (simp add: present_settings_def settings_in_order_def view_attrs_def fresh_attrs_def)
  obtain r p' s' where
    d: "Import demo_env view_doc (empty_project\<lparr>p_dirty := True\<rparr>) fresh = Some (r, p', s')"
    using open_project close_project
    by (simp add: Import_def Parse_def view_doc_def HandleXMLTag_def dispatch_def
          HandleTimeTrack_def isDirty_def)
  from import_view_state [OF view_import] clean ps import_view_state [OF d] d
  show ?thesis by (simp add: view_import)
qed

section \<open>C10: the single-channel 16-bit branch\<close>

text \<open>
  C10. The file of a descriptor opens, is positioned, has one channel and an integer
  subtype, and the format is \<open>int16Sample\<close>; the descriptor has an owner on the heap.
  Then, however many frames the file holds, resolving it returns true, the owner gets
  exactly one more run, a block of exactly the requested number of samples, and no
  message is logged or kept.
\<close>

theorem mono16_appends_unchecked:
  assumes "fi_path fi \<noteq> []" and "wxFile_Open e (fi_path fi) = Some f" and "sf_open_ok f"
      and "fi_origin fi \<le> 0 \<or> seek_ok f (fi_origin fi)"
      and "channels f = 1" and "mFormat s = int16Sample" and "subtype_is_integer f"
      and "owner_of fi = Some r" and "r < length (heap s)"
  shows "\<exists>buf s'. resolve e fi s = Some (True, s')
            \<and> length buf = nat (fi_len fi)
            \<and> heap s' = (heap s)[r := (heap s ! r)\<lparr>e_runs := e_runs (heap s ! r) @ [Block int16Sample buf]\<rparr>]
            \<and> msgs s' = msgs s \<and> mErrorMsg s' = mErrorMsg s
            \<and> mUpdateResult s' = mUpdateResult s"
proof -
  let ?s1 = "s\<lparr>mClip := fi_clip fi, mWaveTrack := fi_track fi\<rparr>"
  let ?pos = "if fi_origin fi > 0 then nat (fi_origin fi) else 0"
  let ?cnt = "nat (fi_len fi)"
  let ?buf = "write_buf (map S16 (items f (as_short f) ?pos (frames_read f ?pos ?cnt)))
                (SampleBuffer e ?cnt)"
  have "resolve e fi s = decode_mono16 e f (fi_path fi) (fi_len fi) ?pos ?s1"
    using assms(1-7) by (auto simp add: resolve_def AddSamples_def Let_def)
  moreover have "append_samples int16Sample ?buf ?s1 = add_run r (Block int16Sample ?buf) ?s1"
    using assms(8) by (auto simp add: append_samples_def owner_of_def split: option.splits)
  ultimately have "resolve e fi s = Some (True, add_run r (Block int16Sample ?buf) ?s1)"
    using assms(6) by (simp add: decode_mono16_def Let_def)
  moreover have "length ?buf = ?cnt" by simp
  ultimately show ?thesis by (intro exI [of _ ?buf]) simp
qed

theorem mono16_appends_unchecked_witness:
  "frames_read demo_file 0 (nat (fi_len long_block)) = 2
   \<and> map_option (\<lambda>(ok, s'). (ok, msgs s', mErrorMsg s',
                    map (\<lambda>x. case x of Silence n \<Rightarrow> 0 | Block fmt buf \<Rightarrow> length buf)
                      (e_runs (heap s' ! 0))))
        (resolve demo_env long_block one_track)
       = Some (True, [], [], [3])"
proof -
  have p: "fi_path long_block \<noteq> []" by (simp add: long_block_def)
  have o: "wxFile_Open demo_env (fi_path long_block) = Some demo_file"
    by (simp add: long_block_def)
  have k: "sf_open_ok demo_file" "channels demo_file = 1" "subtype_is_integer demo_file"
    by simp_all
  have g: "fi_origin long_block \<le> 0 \<or> seek_ok demo_file (fi_origin long_block)"
    by (simp add: long_block_def)
  have f: "mFormat one_track = int16Sample" by simp
  have ow: "owner_of long_block = Some 0" by (simp add: owner_of_def long_block_def)
  have r: "0 < length (heap one_track)" by simp
  have len: "fi_len long_block = 3" by (simp add: long_block_def)
  have fr: "frames_read demo_file 0 (nat (fi_len long_block)) = 2"
    by (simp add: frames_read_def len)
  from mono16_appends_unchecked [OF p o k(1) g k(2) f k(3) ow r] len fr
  show ?thesis by auto
qed

section \<open>The members the constructor leaves uninitialised\<close>

text \<open>
  The runs above start from \<open>fresh\<close> or \<open>one_track\<close>, which give \<open>mProjectAttrs\<close>,
  \<open>mFormat\<close>, \<open>mWaveTrack\<close> and \<open>mClip\<close> one content. What these runs show does not depend
  on it: the same results hold for every content of the four members.
\<close>

lemma cancelled_import_any_content:
  "map_option (\<lambda>(r, p', s'). (r, p', mTracks s', map e_kind (heap s')))
     (Import cancel_env silent_doc empty_project (constructed a f w c))
     = Some (Cancelled, empty_project, [0], [WaveTrack])"
  by (simp add: Import_def Parse_def silent_doc_def HandleXMLTag_def dispatch_def
        HandleWaveTrack_def new_track_def alloc_def push_handler_def HandleSilentBlockFile_def
        AddFile_def HandleXMLEndTag_def pop_handler_def parse_longlong_def Let_def)

lemma silent_block_any_content:
  "map_option (\<lambda>(r, p', s'). (r, map e_runs (heap s'), msgs s', mErrorMsg s'))
     (Import demo_env silent_doc empty_project (constructed a f w c))
     = Some (Success, [[Silence 5]], [], [])"
  by (simp add: Import_def Parse_def silent_doc_def HandleXMLTag_def dispatch_def
        HandleWaveTrack_def new_track_def alloc_def push_handler_def HandleSilentBlockFile_def
        AddFile_def HandleXMLEndTag_def pop_handler_def parse_longlong_def resolve_def
        AddSilence_def add_run_def isDirty_def Let_def)

lemma one_track_constructed:
  "one_track\<lparr>mProjectAttrs := a\<rparr>
     = (constructed a f w c)
         \<lparr>heap := [\<lparr>e_kind = WaveTrack, e_owner = None, e_runs = []\<rparr>],
          mTracks := [0], mWaveTrack := Some 0, mClip := None, mFormat := int16Sample,
          mFileMap := [(''e0000001.au'', ''/home/song_data/e00/d00/e0000001.au'')]\<rparr>"
  by (simp add: one_track_def constructed_def)

lemma block_without_len_any_content:
  "map_option (\<lambda>(ok, s'). (ok, mFiles s', mUpdateResult s', mErrorMsg s'))
     (HandleXMLTag demo_env empty_project ''simpleblockfile''
        [(''filename'', ''e0000001.au'')] (one_track\<lparr>mProjectAttrs := a\<rparr>))
     = Some (True,
             [\<lparr>fi_track = Some 0, fi_clip = None,
               fi_path = ''/home/song_data/e00/d00/e0000001.au'', fi_len = 0,
               fi_origin = 0, fi_channel = 0\<rparr>],
             Success, [])"
  by (simp add: HandleXMLTag_def dispatch_def HandleSimpleBlockFile_def wxStricmp_eq_def
        tolower_def AddFile_def push_handler_def)

lemma short_read_any_content:
  "map_option (\<lambda>(ok, s'). (e_runs (heap s' ! 0), length (msgs s')))
     (decode_mono16 demo_env demo_file ''take.au'' 3 0 (one_track\<lparr>mProjectAttrs := a\<rparr>))
     = Some ([Block int16Sample [S16 7, S16 9, S16 (- 1)]], 0)
   \<and> map_option (\<lambda>(ok, s'). (e_runs (heap s' ! 0), length (msgs s')))
        (decode_direct16 demo_env demo_file ''take.au'' 3 0 0 (one_track\<lparr>mProjectAttrs := a\<rparr>))
       = Some ([Silence 3], 2)"
proof -
  let ?s = "one_track\<lparr>mProjectAttrs := a\<rparr>"
  have fr: "frames_read demo_file 0 3 = 2" by (simp add: frames_read_def)
  have it: "items demo_file (as_short demo_file) 0 2 = [7, 9]"
    by (simp add: items_def upt_rec)
  have sb: "SampleBuffer demo_env 3 = [S16 (- 1), S16 (- 1), S16 (- 1)]"
    by (simp add: SampleBuffer_def upt_rec)
  have a: "decode_mono16 demo_env demo_file ''take.au'' 3 0 ?s
             = Some (True, add_run 0 (Block int16Sample [S16 7, S16 9, S16 (- 1)]) ?s)"
    by (simp add: decode_mono16_def fr it sb write_buf_def append_samples_def)
  have b: "decode_direct16 demo_env demo_file ''take.au'' 3 0 0 ?s
             = short_read ''take.au'' 3 3 ?s"
    by (simp add: decode_direct16_def fr)
  show ?thesis
    by (simp add: a b short_read_def cleanup_def AddSilence_def)
qed

end
